theory Spec2Isabelle
  imports Complex_Main "HOL-Library.Log_Nat"
begin

section \<open>JavaScript numbers\<close>

text \<open>
  Prices, discounts and totals are JavaScript Numbers, that is IEEE-754 binary64 values.
  A finite double is a rational number, so a Number is modelled as a \<open>rat\<close> and every
  arithmetic operation rounds its exact result to the nearest double, ties to even
  (\<open>fl\<close>). The exponent range is not modelled: the amounts of a shop are far from
  overflow and from the subnormal numbers. Quantities and stock counts are Numbers that
  the schemas require to be integers (\<open>Number.isInteger\<close>); they are modelled as \<open>int\<close>.
\<close>

type_synonym number = rat

text \<open>For \<open>0 < x\<close>: the exponent \<open>e\<close> with \<open>2 powi e \<le> x < 2 powi (e + 1)\<close>.\<close>

definition floor_log2 :: "rat \<Rightarrow> int" where
  "floor_log2 x =
     (let (a, b) = quotient_of x;
          k = bitlen a - bitlen b
      in if 2 powi k \<le> x then k else k - 1)"

definition round_half_even :: "rat \<Rightarrow> int" where
  "round_half_even q =
     (let n = \<lfloor>q\<rfloor>; r = q - of_int n
      in if r < 1 / 2 then n
         else if 1 / 2 < r then n + 1
         else if even n then n else n + 1)"

text \<open>Rounding to a 53-bit significand.\<close>

definition fl :: "rat \<Rightarrow> number" where
  "fl x =
     (if x = 0 then 0
      else let u = 2 powi (floor_log2 \<bar>x\<bar> - 52)
           in of_int (round_half_even (x / u)) * u)"

definition num_add :: "number \<Rightarrow> number \<Rightarrow> number" where
  "num_add x y = fl (x + y)"

definition num_sub :: "number \<Rightarrow> number \<Rightarrow> number" where
  "num_sub x y = fl (x - y)"

definition num_mul :: "number \<Rightarrow> number \<Rightarrow> number" where
  "num_mul x y = fl (x * y)"

definition num_div :: "number \<Rightarrow> number \<Rightarrow> number" where
  "num_div x y = fl (x / y)"

text \<open>
  \<open>x.toFixed(2)\<close> is the decimal \<open>n / 100\<close> for the integer \<open>n\<close> nearest to
  \<open>100 * x\<close> (the larger \<open>n\<close> on a tie, on the absolute value), and \<open>parseFloat\<close>
  reads that decimal back as a double.
\<close>

definition toFixed2 :: "number \<Rightarrow> rat" where
  "toFixed2 x =
     (let a = \<bar>x\<bar> * 100; n = \<lfloor>a\<rfloor>;
          m = (if a - of_int n < 1 / 2 then n else n + 1)
      in sgn x * of_int m / 100)"

definition parseFloat_toFixed2 :: "number \<Rightarrow> number" where
  "parseFloat_toFixed2 x = fl (toFixed2 x)"

text \<open>\<open>Math.round\<close>: the nearest integer, a tie going up.\<close>

definition Math_round :: "number \<Rightarrow> number" where
  "Math_round x = of_int \<lfloor>x + 1 / 2\<rfloor>"

section \<open>Documents and collections\<close>

type_synonym objectId = nat
type_synonym date = int

text \<open>
  The failures of the code are \<open>Error\<close> objects told apart by their message, and HTTP
  responses of the route handlers. Each is a constructor named after the kind the
  specification gives it:
  \<^item> \<open>NotFound\<close>: 'Product not found', 'Cart not found', 'Order not found';
  \<^item> \<open>Unavailable\<close>: 'Product is unavailable or insufficient stock' (cart operations);
  \<^item> \<open>InsufficientStock\<close>: 'Insufficient stock' (\<open>Product.updateStock\<close>);
  \<^item> \<open>CrossRetailerConflict\<close>: 'All items in cart must be from the same retailer';
  \<^item> \<open>EmptyCart\<close>: 'Cannot create order with empty cart', and the route's 'Cart is empty';
  \<^item> \<open>SomeItemsUnavailable\<close>: the \<open>Error\<close> 'Some items are unavailable or out of stock'
    thrown by \<open>Order.createFromCart\<close>, which carries the message only;
  \<^item> \<open>ItemsUnavailable\<close>: the 400 response of \<open>POST /order\<close> with the same message and
    the list \<open>unavailableItems\<close>;
  \<^item> \<open>InvalidTransition\<close>: 'Cannot cancel an order that has been delivered' and
    'Cannot update status for cancelled orders';
  \<^item> \<open>Conflict\<close>: the duplicate-key error of the unique index on \<open>orderNumber\<close>;
  \<^item> \<open>ValidationError\<close>: the error of a \<open>save\<close> whose document has no value for a
    required path;
  \<^item> \<open>InvalidArgument\<close>: the other 400 responses ('Status is required', 'Invalid status',
    'Payment method is required') and 'Payment information not found';
  \<^item> \<open>Forbidden\<close>: the 403 response;
  \<^item> \<open>TypeError\<close>: reading a property of \<open>null\<close>;
  \<^item> \<open>ServerError\<close>: the 500 response of a route handler whose \<open>catch\<close> block caught
    an exception.
\<close>

record unavailableItem =
  u_productId :: objectId
  u_productName :: string
  u_requested :: int
  u_available :: int
  u_isAvailable :: bool

datatype error =
    NotFound
  | Unavailable
  | InsufficientStock
  | CrossRetailerConflict
  | EmptyCart
  | SomeItemsUnavailable
  | ItemsUnavailable "unavailableItem list"
  | InvalidTransition
  | Conflict
  | ValidationError
  | InvalidArgument
  | Forbidden
  | TypeError
  | ServerError

record product =
  p_name :: string
  p_price :: number
  p_stock :: int
  p_images :: "string list"
  p_retailer :: objectId
  p_isAvailable :: bool

record retailer =
  r_name :: string
  r_storeName :: string

record cartItem =
  ci_product :: objectId
  ci_quantity :: int
  ci_price :: number
  ci_productName :: string
  ci_productImage :: string
  ci_retailerId :: objectId

record cart =
  c_id :: objectId
  c_customer :: objectId
  c_retailer :: "objectId option"
  c_items :: "cartItem list"
  c_couponCode :: "string option"
  c_discount :: number

record orderItem =
  oi_product :: objectId
  oi_quantity :: int
  oi_price :: number
  oi_productName :: string
  oi_productImage :: string
  oi_retailer :: objectId
  oi_retailerName :: string

record statusEntry =
  sh_status :: string
  sh_timestamp :: date
  sh_note :: string

record payment =
  pay_method :: string
  pay_transactionId :: "string option"
  pay_status :: string
  pay_amount :: number
  pay_paidAt :: "date option"

record address =
  a_street :: string
  a_city :: string
  a_state :: string
  a_zipCode :: string

record delivery =
  d_address :: address
  d_contactPhone :: "string option"
  d_instructions :: "string option"
  d_expectedDeliveryDate :: "date option"
  d_actualDeliveryDate :: "date option"
  d_trackingNumber :: "string option"

record order =
  o_id :: objectId
  o_customer :: objectId
  o_orderNumber :: string
  o_items :: "orderItem list"
  o_subtotal :: number
  o_discount :: number
  o_tax :: number
  o_deliveryFee :: number
  o_total :: number
  o_status :: string
  o_statusHistory :: "statusEntry list"
  o_payment :: "payment option"
  o_delivery :: "delivery option"
  o_couponCode :: "string option"
  o_cancelReason :: "string option"

record customer =
  cu_address :: address
  cu_phone :: "string option"

text \<open>
  A \<open>save\<close> validates the document, then runs the middleware written in the model
  file, then writes. Of the validation the model has the one check that decides a run of
  the code: a new order needs its required \<open>orderNumber\<close>. The other field validators
  (\<open>min\<close>, \<open>enum\<close>, the remaining \<open>required\<close> paths) are not modelled: stored
  documents and arguments are taken to satisfy them.
\<close>

text \<open>
  The database: one collection per model. Products, retailers and customers are only
  looked up by \<open>_id\<close> and are maps; carts and orders are also searched by other fields
  and are lists in insertion order. The unique index on \<open>orderNumber\<close> is enforced by
  \<open>insert_order\<close>.
\<close>

record db =
  products :: "objectId \<rightharpoonup> product"
  retailers :: "objectId \<rightharpoonup> retailer"
  customers :: "objectId \<rightharpoonup> customer"
  carts :: "cart list"
  orders :: "order list"

text \<open>
  What a call reads from outside the database: the clock (\<open>Date.now()\<close> and the local
  calendar date of \<open>new Date()\<close>), the value of \<open>Math.floor(Math.random() * 10000)\<close>,
  the \<open>_id\<close> the driver gives a new document, and the process environment variables
  \<open>TAX_RATE\<close> and \<open>STANDARD_DELIVERY_FEE\<close> as the numbers they convert to.
\<close>

record env =
  e_now :: date
  e_fullYear :: nat
  e_month :: nat
  e_date :: nat
  e_random :: nat
  e_newId :: objectId
  e_TAX_RATE :: "number option"
  e_STANDARD_DELIVERY_FEE :: "number option"

section \<open>Product: stock operations\<close>

text \<open>\<open>product.save()\<close> writes the document back under its id.\<close>

definition save_product :: "db \<Rightarrow> objectId \<Rightarrow> product \<Rightarrow> db" where
  "save_product d productId product = d\<lparr>products := (products d)(productId \<mapsto> product)\<rparr>"

text \<open>\<open>ProductSchema.statics.updateStock\<close> (Product.js, lines 96-109).\<close>

definition updateStock :: "db \<Rightarrow> objectId \<Rightarrow> int \<Rightarrow> db \<times> (error + product)" where
  "updateStock d productId quantity =
     (case products d productId of
        None \<Rightarrow> (d, Inl NotFound)
      | Some product \<Rightarrow>
          if p_stock product < quantity then (d, Inl InsufficientStock)
          else let product' = product\<lparr>p_stock := p_stock product - quantity\<rparr>
               in (save_product d productId product', Inr product'))"

text \<open>\<open>ProductSchema.statics.addStock\<close> (Product.js, lines 112-125).\<close>

definition addStock :: "db \<Rightarrow> objectId \<Rightarrow> int \<Rightarrow> db \<times> (error + product)" where
  "addStock d productId quantity =
     (if quantity \<le> 0 then (d, Inl InvalidArgument)
      else case products d productId of
        None \<Rightarrow> (d, Inl NotFound)
      | Some product \<Rightarrow>
          let product' = product\<lparr>p_stock := p_stock product + quantity\<rparr>
          in (save_product d productId product', Inr product'))"

text \<open>A sequence of \<open>updateStock\<close> calls, each on the database the previous one left.\<close>

fun updateStock_calls :: "db \<Rightarrow> (objectId \<times> int) list \<Rightarrow> db" where
  "updateStock_calls d [] = d"
| "updateStock_calls d ((productId, quantity) # calls) =
     updateStock_calls (fst (updateStock d productId quantity)) calls"

definition stock_nonneg :: "db \<Rightarrow> bool" where
  "stock_nonneg d \<longleftrightarrow> (\<forall>productId product. products d productId = Some product \<longrightarrow> 0 \<le> p_stock product)"

section \<open>Cart\<close>

text \<open>The virtual fields of the cart (Cart.js, lines 68-96).\<close>

definition cart_subtotal :: "cart \<Rightarrow> number" where
  "cart_subtotal this =
     foldl (\<lambda>total item. num_add total (num_mul (ci_price item) (of_int (ci_quantity item))))
       0 (c_items this)"

definition cart_tax :: "env \<Rightarrow> cart \<Rightarrow> number" where
  "cart_tax ev this =
     (let taxRate = (case e_TAX_RATE ev of None \<Rightarrow> fl (1 / 10) | Some r \<Rightarrow> r)
      in num_div
           (Math_round (num_mul (num_mul (num_sub (cart_subtotal this) (c_discount this)) taxRate) 100))
           100)"

definition cart_deliveryFee :: "env \<Rightarrow> number" where
  "cart_deliveryFee ev = (case e_STANDARD_DELIVERY_FEE ev of None \<Rightarrow> 5 | Some f \<Rightarrow> f)"

definition cart_total :: "env \<Rightarrow> cart \<Rightarrow> number" where
  "cart_total ev this =
     (let subtotal = cart_subtotal this;
          discountedSubtotal = num_sub subtotal (c_discount this)
      in num_add (num_add discountedSubtotal (cart_tax ev this)) (cart_deliveryFee ev))"

definition cart_itemCount :: "cart \<Rightarrow> int" where
  "cart_itemCount this = foldl (\<lambda>count item. count + ci_quantity item) 0 (c_items this)"

text \<open>
  The pre-save middleware (Cart.js, lines 217-240): a cart with lines of two retailers
  is refused, and the cart's \<open>retailer\<close> field is set from its first line.
\<close>

definition cart_pre_save :: "cart \<Rightarrow> error + cart" where
  "cart_pre_save this =
     (case c_items this of
        [] \<Rightarrow> Inr this
      | firstItem # _ \<Rightarrow>
          let firstItemRetailerId = ci_retailerId firstItem;
              allFromSameRetailer =
                list_all (\<lambda>item. ci_retailerId item = firstItemRetailerId) (c_items this)
          in if \<not> allFromSameRetailer then Inl CrossRetailerConflict
             else Inr (this\<lparr>c_retailer := Some firstItemRetailerId\<rparr>))"

text \<open>
  \<open>cart.save()\<close>: the middleware runs, and only when it passes is the document written
  under its id. A refused save leaves the collection as it was.
\<close>

definition write_cart :: "cart list \<Rightarrow> cart \<Rightarrow> cart list" where
  "write_cart cs this =
     (if list_ex (\<lambda>c. c_id c = c_id this) cs
      then map (\<lambda>c. if c_id c = c_id this then this else c) cs
      else cs @ [this])"

definition save_cart :: "db \<Rightarrow> cart \<Rightarrow> db \<times> (error + cart)" where
  "save_cart d this =
     (case cart_pre_save this of
        Inl e \<Rightarrow> (d, Inl e)
      | Inr this' \<Rightarrow> (d\<lparr>carts := write_cart (carts d) this'\<rparr>, Inr this'))"

text \<open>\<open>Array.prototype.findIndex\<close>, with \<open>None\<close> for \<open>-1\<close>.\<close>

fun findIndex :: "('a \<Rightarrow> bool) \<Rightarrow> 'a list \<Rightarrow> nat option" where
  "findIndex P [] = None"
| "findIndex P (x # xs) =
     (if P x then Some 0 else map_option Suc (findIndex P xs))"

text \<open>\<open>CartSchema.methods.addItem\<close> (Cart.js, lines 99-141).\<close>

definition addItem :: "db \<Rightarrow> cart \<Rightarrow> objectId \<Rightarrow> int \<Rightarrow> db \<times> (error + cart)" where
  "addItem d this productId quantity =
     (case products d productId of
        None \<Rightarrow> (d, Inl NotFound)
      | Some product \<Rightarrow>
          if \<not> p_isAvailable product \<or> p_stock product < quantity then (d, Inl Unavailable)
          else
            (case findIndex (\<lambda>item. ci_product item = productId) (c_items this) of
               Some existingItemIndex \<Rightarrow>
                 let existing = c_items this ! existingItemIndex;
                     updated = existing\<lparr>ci_quantity := ci_quantity existing + quantity,
                                        ci_price := p_price product\<rparr>
                 in save_cart d (this\<lparr>c_items := (c_items this)[existingItemIndex := updated]\<rparr>)
             | None \<Rightarrow>
                 let pushed = this\<lparr>c_items := c_items this @
                       [\<lparr>ci_product = productId,
                         ci_quantity = quantity,
                         ci_price = p_price product,
                         ci_productName = p_name product,
                         ci_productImage = (case p_images product of [] \<Rightarrow> [] | img # _ \<Rightarrow> img),
                         ci_retailerId = p_retailer product\<rparr>]\<rparr>
                 in save_cart d
                      (if c_retailer pushed = None
                       then pushed\<lparr>c_retailer := Some (p_retailer product)\<rparr>
                       else pushed)))"

text \<open>\<open>CartSchema.methods.removeItem\<close> (Cart.js, lines 144-150).\<close>

definition removeItem :: "db \<Rightarrow> cart \<Rightarrow> objectId \<Rightarrow> db \<times> (error + cart)" where
  "removeItem d this productId =
     save_cart d (this\<lparr>c_items := filter (\<lambda>item. ci_product item \<noteq> productId) (c_items this)\<rparr>)"

text \<open>\<open>CartSchema.methods.clearCart\<close> (Cart.js, lines 184-190).\<close>

definition clearCart :: "db \<Rightarrow> cart \<Rightarrow> db \<times> (error + cart)" where
  "clearCart d this = save_cart d (this\<lparr>c_items := [], c_discount := 0, c_couponCode := None\<rparr>)"

text \<open>
  \<open>CartSchema.methods.verifyAvailability\<close> (Cart.js, lines 193-215). The loop visits the
  lines in order and appends an entry for each line whose product is missing, flagged
  unavailable or short of stock.
\<close>

fun verify_loop :: "db \<Rightarrow> cartItem list \<Rightarrow> unavailableItem list \<Rightarrow> unavailableItem list" where
  "verify_loop d [] unavailableItems = unavailableItems"
| "verify_loop d (item # rest) unavailableItems =
     (case products d (ci_product item) of
        None \<Rightarrow>
          verify_loop d rest (unavailableItems @
            [\<lparr>u_productId = ci_product item, u_productName = ci_productName item,
              u_requested = ci_quantity item, u_available = 0, u_isAvailable = False\<rparr>])
      | Some product \<Rightarrow>
          if \<not> p_isAvailable product \<or> p_stock product < ci_quantity item
          then verify_loop d rest (unavailableItems @
            [\<lparr>u_productId = ci_product item, u_productName = ci_productName item,
              u_requested = ci_quantity item, u_available = p_stock product,
              u_isAvailable = p_isAvailable product\<rparr>])
          else verify_loop d rest unavailableItems)"

record availability =
  isValid :: bool
  unavailableItems :: "unavailableItem list"

definition verifyAvailability :: "db \<Rightarrow> cart \<Rightarrow> availability" where
  "verifyAvailability d this =
     (let unavailable = verify_loop d (c_items this) []
      in \<lparr>isValid = (length unavailable = 0), unavailableItems = unavailable\<rparr>)"

text \<open>The lines of a cart all carry one retailer.\<close>

definition single_retailer :: "cart \<Rightarrow> bool" where
  "single_retailer c \<longleftrightarrow>
     (\<forall>x \<in> set (c_items c). \<forall>y \<in> set (c_items c). ci_retailerId x = ci_retailerId y)"

section \<open>Order\<close>

text \<open>Decimal digits of a number, \<open>padStart\<close> and \<open>substr(-n)\<close> of a string.\<close>

fun toString :: "nat \<Rightarrow> string" where
  "toString n =
     (if n < 10 then [''0123456789'' ! n]
      else toString (n div 10) @ [''0123456789'' ! (n mod 10)])"

definition padStart :: "nat \<Rightarrow> char \<Rightarrow> string \<Rightarrow> string" where
  "padStart n c s = replicate (n - length s) c @ s"

definition substr_last :: "nat \<Rightarrow> string \<Rightarrow> string" where
  "substr_last n s = drop (length s - n) s"

text \<open>
  The pre-save middleware of a new order (Order.js, lines 168-188): the order number
  \<open>NM-yymmdd-rrrr\<close> from the date and a random number below 10000, and the first entry
  of the status history.
\<close>

definition generate_orderNumber :: "env \<Rightarrow> string" where
  "generate_orderNumber ev =
     (let year = substr_last 2 (toString (e_fullYear ev));
          month = padStart 2 (CHR ''0'') (toString (e_month ev + 1));
          day = padStart 2 (CHR ''0'') (toString (e_date ev));
          random = padStart 4 (CHR ''0'') (toString (e_random ev))
      in ''NM-'' @ year @ month @ day @ ''-'' @ random)"

definition order_pre_save_new :: "env \<Rightarrow> order \<Rightarrow> order" where
  "order_pre_save_new ev this =
     (let numbered = this\<lparr>o_orderNumber := generate_orderNumber ev\<rparr>
      in numbered\<lparr>o_statusHistory := o_statusHistory numbered @
           [\<lparr>sh_status = o_status numbered, sh_timestamp = e_now ev, sh_note = ''Order created''\<rparr>]\<rparr>)"

text \<open>
  Inserting a new order: the unique index on \<open>orderNumber\<close> (Order.js, lines 114-118)
  rejects a document whose order number is already in the collection.
\<close>

definition insert_order :: "db \<Rightarrow> order \<Rightarrow> db \<times> (error + order)" where
  "insert_order d this =
     (if list_ex (\<lambda>other. o_orderNumber other = o_orderNumber this) (orders d)
      then (d, Inl Conflict)
      else (d\<lparr>orders := orders d @ [this]\<rparr>, Inr this))"

text \<open>
  \<open>Order.create(doc)\<close> saves a new document. The validation is the first step of a
  \<open>save\<close>, before the middleware registered with \<open>pre('save')\<close>: a document with no
  \<open>orderNumber\<close> (a required path, Order.js, lines 114-118; the empty string counts as
  no value) is refused with a \<open>ValidationError\<close>, and neither the middleware of lines
  168-188 nor the insertion runs. A document that has one passes, the middleware
  replaces it by the generated number, and the document is inserted.
\<close>

definition create_order :: "env \<Rightarrow> db \<Rightarrow> order \<Rightarrow> db \<times> (error + order)" where
  "create_order ev d doc =
     (if o_orderNumber doc = [] then (d, Inl ValidationError)
      else insert_order d (order_pre_save_new ev doc))"

text \<open>
  \<open>order.save()\<close> on a stored order: the middleware does nothing (\<open>isNew\<close> is false)
  and the document replaces the stored one.
\<close>

definition save_order :: "db \<Rightarrow> order \<Rightarrow> db \<times> (error + order)" where
  "save_order d this =
     (d\<lparr>orders := map (\<lambda>other. if o_id other = o_id this then this else other) (orders d)\<rparr>,
      Inr this)"

definition findOrderById :: "db \<Rightarrow> objectId \<Rightarrow> order option" where
  "findOrderById d orderId = find (\<lambda>x. o_id x = orderId) (orders d)"

text \<open>
  \<open>OrderSchema.methods.updateStatus\<close> (Order.js, lines 196-215): first the changes to
  the document, then the method with its \<open>save\<close>.
\<close>

definition set_status :: "date \<Rightarrow> order \<Rightarrow> string \<Rightarrow> string \<Rightarrow> order" where
  "set_status now this status note =
     (let s1 = this\<lparr>o_status := status,
                   o_statusHistory := o_statusHistory this @
                     [\<lparr>sh_status = status, sh_timestamp = now, sh_note = note\<rparr>]\<rparr>;
          s2 = (case o_delivery s1 of
                  Some dl \<Rightarrow>
                    if status = ''delivered''
                    then s1\<lparr>o_delivery := Some (dl\<lparr>d_actualDeliveryDate := Some now\<rparr>)\<rparr>
                    else s1
                | None \<Rightarrow> s1)
      in case o_delivery s2 of
           Some dl \<Rightarrow>
             if status = ''confirmed'' \<and> d_expectedDeliveryDate dl = None
             then s2\<lparr>o_delivery :=
                    Some (dl\<lparr>d_expectedDeliveryDate := Some (now + 3 * 24 * 60 * 60 * 1000)\<rparr>)\<rparr>
             else s2
         | None \<Rightarrow> s2)"

definition updateStatus :: "env \<Rightarrow> db \<Rightarrow> order \<Rightarrow> string \<Rightarrow> string \<Rightarrow> db \<times> (error + order)" where
  "updateStatus ev d this status note = save_order d (set_status (e_now ev) this status note)"

text \<open>\<open>OrderSchema.methods.cancelOrder\<close> (Order.js, lines 218-232).\<close>

definition cancelOrder :: "env \<Rightarrow> db \<Rightarrow> order \<Rightarrow> string \<Rightarrow> db \<times> (error + order)" where
  "cancelOrder ev d this reason =
     (if o_status this = ''delivered'' then (d, Inl InvalidTransition)
      else save_order d
             (this\<lparr>o_status := ''cancelled'',
                   o_cancelReason := Some reason,
                   o_statusHistory := o_statusHistory this @
                     [\<lparr>sh_status = ''cancelled'', sh_timestamp = e_now ev, sh_note = reason\<rparr>]\<rparr>))"

text \<open>
  \<open>OrderSchema.methods.updatePayment\<close> (Order.js, lines 235-251). A transaction id that
  is \<open>null\<close> or the empty string is falsy and is not stored.
\<close>

definition updatePayment ::
  "env \<Rightarrow> db \<Rightarrow> order \<Rightarrow> string \<Rightarrow> string option \<Rightarrow> db \<times> (error + order)" where
  "updatePayment ev d this status transactionId =
     (case o_payment this of
        None \<Rightarrow> (d, Inl InvalidArgument)
      | Some pay \<Rightarrow>
          let p1 = pay\<lparr>pay_status := status\<rparr>;
              p2 = (case transactionId of
                      None \<Rightarrow> p1
                    | Some t \<Rightarrow> if t = [] then p1 else p1\<lparr>pay_transactionId := Some t\<rparr>);
              p3 = (if status = ''completed'' then p2\<lparr>pay_paidAt := Some (e_now ev)\<rparr> else p2)
          in save_order d (this\<lparr>o_payment := Some p3\<rparr>))"

text \<open>
  The handler of \<open>PUT /orders/:id/status\<close> (routes/retailer.js, lines 1530-1623); \<open>user\<close>
  is the authenticated retailer and \<open>status\<close> the field of the request body.
\<close>

definition validStatuses :: "string list" where
  "validStatuses = [''confirmed'', ''processing'', ''out_for_delivery'', ''delivered'']"

definition putOrderStatus ::
  "env \<Rightarrow> db \<Rightarrow> objectId \<Rightarrow> objectId \<Rightarrow> string option \<Rightarrow> db \<times> (error + order)" where
  "putOrderStatus ev d user orderId statusField =
     (case statusField of
        None \<Rightarrow> (d, Inl InvalidArgument)
      | Some status \<Rightarrow>
          if status = [] then (d, Inl InvalidArgument)
          else if status \<notin> set validStatuses then (d, Inl InvalidArgument)
          else
            (case findOrderById d orderId of
               None \<Rightarrow> (d, Inl NotFound)
             | Some ord \<Rightarrow>
                 let hasRetailerItems = list_ex (\<lambda>item. oi_retailer item = user) (o_items ord)
                 in if \<not> hasRetailerItems then (d, Inl Forbidden)
                    else if o_status ord = ''cancelled'' then (d, Inl InvalidTransition)
                    else save_order d (set_status (e_now ev) ord status
                           (''Status updated by retailer ID: '' @ toString user))))"

section \<open>The order commitment pipeline\<close>

record paymentDetails =
  pd_method :: string
  pd_transactionId :: "string option"

record deliveryDetails =
  dd_address :: address
  dd_contactPhone :: "string option"
  dd_instructions :: "string option"
  dd_fee :: "number option"

text \<open>
  The order lines (Order.js, lines 279-287). The cart was loaded with its products and
  their retailers populated; a reference that finds no document is populated as
  \<open>null\<close>, and reading \<open>._id\<close> of it throws a \<open>TypeError\<close>.
\<close>

fun order_items :: "db \<Rightarrow> cartItem list \<Rightarrow> error + orderItem list" where
  "order_items d [] = Inr []"
| "order_items d (item # rest) =
     (case products d (ci_product item) of
        None \<Rightarrow> Inl TypeError
      | Some product \<Rightarrow>
          (case retailers d (p_retailer product) of
             None \<Rightarrow> Inl TypeError
           | Some r \<Rightarrow>
               (case order_items d rest of
                  Inl e \<Rightarrow> Inl e
                | Inr lines \<Rightarrow>
                    Inr (\<lparr>oi_product = ci_product item,
                          oi_quantity = ci_quantity item,
                          oi_price = ci_price item,
                          oi_productName = ci_productName item,
                          oi_productImage = ci_productImage item,
                          oi_retailer = p_retailer product,
                          oi_retailerName = r_storeName r\<rparr> # lines))))"

text \<open>
  The stock loop (Order.js, lines 322-324): one \<open>updateStock\<close> per cart line, in order;
  the first failure is thrown and the remaining lines are not visited.
\<close>

fun stock_loop :: "db \<Rightarrow> cartItem list \<Rightarrow> db \<times> (error + unit)" where
  "stock_loop d [] = (d, Inr ())"
| "stock_loop d (item # rest) =
     (case updateStock d (ci_product item) (ci_quantity item) of
        (d', Inl e) \<Rightarrow> (d', Inl e)
      | (d', Inr _) \<Rightarrow> stock_loop d' rest)"

definition findCartById :: "db \<Rightarrow> objectId \<Rightarrow> cart option" where
  "findCartById d cartId = find (\<lambda>c. c_id c = cartId) (carts d)"

text \<open>The totals (Order.js, lines 290-293).\<close>

definition order_tax :: "number \<Rightarrow> number" where
  "order_tax subtotal = parseFloat_toFixed2 (num_mul subtotal (fl (1 / 10)))"

definition order_total :: "number \<Rightarrow> number \<Rightarrow> number \<Rightarrow> number \<Rightarrow> number" where
  "order_total subtotal tax deliveryFee discount =
     num_sub (num_add (num_add subtotal tax) deliveryFee) discount"

text \<open>
  The document handed to \<open>Order.create\<close> (Order.js, lines 296-318). It gives no
  \<open>orderNumber\<close>: the field is left to the middleware.
\<close>

definition new_order ::
  "env \<Rightarrow> cart \<Rightarrow> orderItem list \<Rightarrow> paymentDetails \<Rightarrow> deliveryDetails \<Rightarrow> order" where
  "new_order ev c lines pd dd =
     (let subtotal = cart_subtotal c;
          tax = order_tax subtotal;
          deliveryFee = (case dd_fee dd of None \<Rightarrow> 0 | Some fee \<Rightarrow> fee);
          total = order_total subtotal tax deliveryFee (c_discount c)
      in \<lparr>o_id = e_newId ev,
          o_customer = c_customer c,
          o_orderNumber = [],
          o_items = lines,
          o_subtotal = subtotal,
          o_discount = c_discount c,
          o_tax = tax,
          o_deliveryFee = deliveryFee,
          o_total = total,
          o_status = ''pending'',
          o_statusHistory = [],
          o_payment = Some
            \<lparr>pay_method = pd_method pd,
             pay_transactionId = pd_transactionId pd,
             pay_status = (if pd_method pd = ''cash_on_delivery'' then ''pending'' else ''completed''),
             pay_amount = total,
             pay_paidAt = (if pd_method pd = ''cash_on_delivery'' then None else Some (e_now ev))\<rparr>,
          o_delivery = Some
            \<lparr>d_address = dd_address dd,
             d_contactPhone = dd_contactPhone dd,
             d_instructions = dd_instructions dd,
             d_expectedDeliveryDate = Some (e_now ev + 2 * 24 * 60 * 60 * 1000),
             d_actualDeliveryDate = None,
             d_trackingNumber = None\<rparr>,
          o_couponCode = c_couponCode c,
          o_cancelReason = None\<rparr>)"

text \<open>
  The order lines and the document together (Order.js, lines 279-318): what a run that
  has passed the verification hands to \<open>Order.create\<close>.
\<close>

definition order_document ::
  "env \<Rightarrow> db \<Rightarrow> cart \<Rightarrow> paymentDetails \<Rightarrow> deliveryDetails \<Rightarrow> error + order" where
  "order_document ev d c pd dd =
     (case order_items d (c_items c) of
        Inl e \<Rightarrow> Inl e
      | Inr lines \<Rightarrow> Inr (new_order ev c lines pd dd))"

text \<open>
  \<open>OrderSchema.statics.createFromCart\<close> (Order.js, lines 254-330). The result is the
  database as the call leaves it, and the order or the error thrown.
\<close>

definition createFromCart ::
  "env \<Rightarrow> db \<Rightarrow> objectId \<Rightarrow> paymentDetails \<Rightarrow> deliveryDetails \<Rightarrow> db \<times> (error + order)" where
  "createFromCart ev d cartId pd dd =
     (case findCartById d cartId of
        None \<Rightarrow> (d, Inl NotFound)
      | Some c \<Rightarrow>
          if length (c_items c) = 0 then (d, Inl EmptyCart)
          else if \<not> isValid (verifyAvailability d c) then (d, Inl SomeItemsUnavailable)
          else
            (case order_document ev d c pd dd of
               Inl e \<Rightarrow> (d, Inl e)
             | Inr doc \<Rightarrow>
                 (case create_order ev d doc of
                    (d1, Inl e) \<Rightarrow> (d1, Inl e)
                  | (d1, Inr ord) \<Rightarrow>
                      (case stock_loop d1 (c_items c) of
                         (d2, Inl e) \<Rightarrow> (d2, Inl e)
                       | (d2, Inr _) \<Rightarrow>
                           (case clearCart d2 c of
                              (d3, Inl e) \<Rightarrow> (d3, Inl e)
                            | (d3, Inr _) \<Rightarrow> (d3, Inr ord))))))"

text \<open>
  The handler of \<open>POST /order\<close> (the customer routes, lines 2233-2312 of their file):
  the operation the specification calls \<open>commit\<close>. An exception of \<open>createFromCart\<close> is
  caught and answered with the 500 response.
\<close>

definition findCartByCustomer :: "db \<Rightarrow> objectId \<Rightarrow> cart option" where
  "findCartByCustomer d user = find (\<lambda>c. c_customer c = user) (carts d)"

definition truthy :: "string option \<Rightarrow> bool" where
  "truthy s = (case s of None \<Rightarrow> False | Some t \<Rightarrow> t \<noteq> [])"

definition postOrder ::
  "env \<Rightarrow> db \<Rightarrow> objectId \<Rightarrow> string option \<Rightarrow> address option \<Rightarrow> string option \<Rightarrow> string option
   \<Rightarrow> db \<times> (error + order)" where
  "postOrder ev d user paymentMethod deliveryAddress deliveryPhone deliveryInstructions =
     (case paymentMethod of
        None \<Rightarrow> (d, Inl InvalidArgument)
      | Some method \<Rightarrow>
          if method = [] then (d, Inl InvalidArgument)
          else
            (case findCartByCustomer d user of
               None \<Rightarrow> (d, Inl EmptyCart)
             | Some c \<Rightarrow>
                 if length (c_items c) = 0 then (d, Inl EmptyCart)
                 else
                   let avail = verifyAvailability d c
                   in if \<not> isValid avail
                      then (d, Inl (ItemsUnavailable (unavailableItems avail)))
                      else
                        (case customers d user of
                           None \<Rightarrow> (d, Inl NotFound)
                         | Some cu \<Rightarrow>
                             let addr = (case deliveryAddress of
                                           None \<Rightarrow> cu_address cu
                                         | Some a \<Rightarrow> a);
                                 contactPhone = (if truthy deliveryPhone then deliveryPhone
                                                 else cu_phone cu)
                             in (case createFromCart ev d (c_id c)
                                        \<lparr>pd_method = method, pd_transactionId = None\<rparr>
                                        \<lparr>dd_address = addr, dd_contactPhone = contactPhone,
                                          dd_instructions = deliveryInstructions,
                                          dd_fee = Some 5\<rparr> of
                                   (d', Inl e) \<Rightarrow> (d', Inl ServerError)
                                 | (d', Inr ord) \<Rightarrow> (d', Inr ord)))))"

section \<open>Later operations on an order, and the specification's formulas\<close>

text \<open>
  The operations the code has on a stored order: the three methods of the model and the
  status route. \<open>apply_op\<close> loads the order by id, as the callers do, and runs one of them;
  \<open>apply_ops\<close> runs a sequence, each call with its own clock.
\<close>

datatype order_op =
    UpdateStatus string string
  | CancelOrder string
  | UpdatePayment string "string option"
  | PutOrderStatus objectId "string option"

definition apply_op :: "env \<Rightarrow> db \<Rightarrow> objectId \<Rightarrow> order_op \<Rightarrow> db \<times> (error + order)" where
  "apply_op ev d orderId opn =
     (case findOrderById d orderId of
        None \<Rightarrow> (d, Inl NotFound)
      | Some this \<Rightarrow>
          (case opn of
             UpdateStatus status note \<Rightarrow> updateStatus ev d this status note
           | CancelOrder reason \<Rightarrow> cancelOrder ev d this reason
           | UpdatePayment status transactionId \<Rightarrow> updatePayment ev d this status transactionId
           | PutOrderStatus user statusField \<Rightarrow> putOrderStatus ev d user orderId statusField))"

fun apply_ops :: "db \<Rightarrow> (env \<times> objectId \<times> order_op) list \<Rightarrow> db" where
  "apply_ops d [] = d"
| "apply_ops d ((ev, orderId, opn) # rest) = apply_ops (fst (apply_op ev d orderId opn)) rest"

text \<open>The five amounts of an order.\<close>

definition amounts :: "order \<Rightarrow> number \<times> number \<times> number \<times> number \<times> number" where
  "amounts ord = (o_subtotal ord, o_discount ord, o_tax ord, o_deliveryFee ord, o_total ord)"

text \<open>
  The specification's formulas, written as the specification words them, for comparison
  with the fields the code stores: \<open>total = subtotal - discount + tax + deliveryFee\<close> and
  \<open>tax = round2((subtotal - discount) * taxRate)\<close>, with \<open>round2\<close> the rounding to two
  decimals of the cart's \<open>tax\<close> field.
\<close>

definition spec_total :: "order \<Rightarrow> number" where
  "spec_total ord =
     num_add (num_add (num_sub (o_subtotal ord) (o_discount ord)) (o_tax ord)) (o_deliveryFee ord)"


section \<open>Example data\<close>

text \<open>
  A small shop used to run the operations on concrete inputs: two retailers, three
  products, one customer.
\<close>

definition ex_env :: env where
  "ex_env = \<lparr>e_now = 1000, e_fullYear = 2026, e_month = 10, e_date = 2, e_random = 42,
              e_newId = 500, e_TAX_RATE = None, e_STANDARD_DELIVERY_FEE = None\<rparr>"

definition ex_apples :: product where
  "ex_apples = \<lparr>p_name = ''Apples'', p_price = fl (299 / 100), p_stock = 10,
                 p_images = [''apples.png''], p_retailer = 7, p_isAvailable = True\<rparr>"

definition ex_bread :: product where
  "ex_bread = \<lparr>p_name = ''Bread'', p_price = fl (199 / 100), p_stock = 1,
                p_images = [], p_retailer = 7, p_isAvailable = True\<rparr>"

definition ex_cheese :: product where
  "ex_cheese = \<lparr>p_name = ''Cheese'', p_price = 100, p_stock = 4,
                 p_images = [], p_retailer = 8, p_isAvailable = True\<rparr>"

definition ex_products :: "objectId \<rightharpoonup> product" where
  "ex_products = [1 \<mapsto> ex_apples, 2 \<mapsto> ex_bread, 3 \<mapsto> ex_cheese]"

definition ex_retailers :: "objectId \<rightharpoonup> retailer" where
  "ex_retailers = [7 \<mapsto> \<lparr>r_name = ''Ann'', r_storeName = ''Corner Shop''\<rparr>,
                   8 \<mapsto> \<lparr>r_name = ''Bob'', r_storeName = ''Dairy''\<rparr>]"

definition ex_address :: address where
  "ex_address = \<lparr>a_street = ''1 Main St'', a_city = ''Springfield'', a_state = ''IL'',
                  a_zipCode = ''62701''\<rparr>"

definition ex_customers :: "objectId \<rightharpoonup> customer" where
  "ex_customers = [20 \<mapsto> \<lparr>cu_address = ex_address, cu_phone = Some ''555-0100''\<rparr>]"

definition ex_db :: "cart list \<Rightarrow> order list \<Rightarrow> db" where
  "ex_db cs os = \<lparr>products = ex_products, retailers = ex_retailers, customers = ex_customers,
                  carts = cs, orders = os\<rparr>"

definition ex_line :: "objectId \<Rightarrow> int \<Rightarrow> number \<Rightarrow> string \<Rightarrow> cartItem" where
  "ex_line productId quantity price name =
     \<lparr>ci_product = productId, ci_quantity = quantity, ci_price = price,
      ci_productName = name, ci_productImage = [], ci_retailerId = 7\<rparr>"

definition ex_cart :: "cartItem list \<Rightarrow> number \<Rightarrow> cart" where
  "ex_cart lines discount =
     \<lparr>c_id = 30, c_customer = 20, c_retailer = Some 7, c_items = lines,
      c_couponCode = None, c_discount = discount\<rparr>"

definition ex_order :: "string \<Rightarrow> string \<Rightarrow> order" where
  "ex_order number status =
     \<lparr>o_id = 40, o_customer = 20, o_orderNumber = number,
      o_items = [\<lparr>oi_product = 1, oi_quantity = 2, oi_price = 3, oi_productName = ''Apples'',
                  oi_productImage = [], oi_retailer = 7, oi_retailerName = ''Corner Shop''\<rparr>],
      o_subtotal = 6, o_discount = 0, o_tax = 1, o_deliveryFee = 5, o_total = 12,
      o_status = status, o_statusHistory = [], o_payment = None, o_delivery = None,
      o_couponCode = None, o_cancelReason = None\<rparr>"

definition ex_pd :: paymentDetails where
  "ex_pd = \<lparr>pd_method = ''cash_on_delivery'', pd_transactionId = None\<rparr>"

definition ex_dd :: deliveryDetails where
  "ex_dd = \<lparr>dd_address = ex_address, dd_contactPhone = Some ''555-0100'',
            dd_instructions = None, dd_fee = Some 5\<rparr>"

definition ex_twice :: db where
  "ex_twice = ex_db [ex_cart [ex_line 1 6 3 ''Apples'', ex_line 1 6 3 ''Apples''] 0] []"






definition ex_plain :: db where
  "ex_plain = ex_db [ex_cart [ex_line 1 1 (fl (299 / 100)) ''Apples''] 0] []"

definition ex_half_off :: db where
  "ex_half_off = ex_db [ex_cart [ex_line 1 1 (fl (299 / 100)) ''Apples''] (1 / 2)] []"

section \<open>Properties of the rounding\<close>

text \<open>
  \<open>floor_log2\<close> is the binary exponent, \<open>fl\<close> commutes with negation, a double is
  its own rounding (\<open>fl\<close> is idempotent), and a rounding moves a number by at most
  \<open>2 ^ -53\<close> of its size.
\<close>

lemma two_powi_nat: "0 \<le> n \<Longrightarrow> (2::rat) ^ nat n = 2 powi n"
  by (simp add: power_int_def)

lemma two_powi_pos [simp]: "0 < (2::rat) powi n"
  by (simp add: power_int_def)

lemma two_powi_mono: "m \<le> n \<Longrightarrow> (2::rat) powi m \<le> 2 powi n"
  by (rule power_int_increasing) simp_all

lemma floor_log2_bounds:
  assumes "0 < x"
  shows "2 powi (floor_log2 x) \<le> x \<and> x < 2 powi (floor_log2 x + 1)"
proof -
  obtain a b where q: "quotient_of x = (a, b)" by (cases "quotient_of x")
  then have b: "0 < b" and x: "x = of_int a / of_int b"
    by (simp_all add: quotient_of_denom_pos quotient_of_div)
  with assms have a: "0 < a"
    by (simp add: zero_less_divide_iff)
  define k where "k = bitlen a - bitlen b"
  have la: "1 \<le> bitlen a" and lb: "1 \<le> bitlen b"
    using a b by (simp_all add: bitlen_alt_def)
  from bitlen_bounds [OF a] have "(of_int (2 ^ nat (bitlen a - 1)) :: rat) \<le> of_int a"
    and "(of_int a :: rat) < of_int (2 ^ nat (bitlen a))"
    by (simp_all only: of_int_le_iff of_int_less_iff)
  with la have a1: "(2::rat) powi (bitlen a - 1) \<le> of_int a"
    and a2: "of_int a < (2::rat) powi (bitlen a)"
    by (simp_all add: two_powi_nat [symmetric])
  from bitlen_bounds [OF b] have "(of_int (2 ^ nat (bitlen b - 1)) :: rat) \<le> of_int b"
    and "(of_int b :: rat) < of_int (2 ^ nat (bitlen b))"
    by (simp_all only: of_int_le_iff of_int_less_iff)
  with lb have b1: "(2::rat) powi (bitlen b - 1) \<le> of_int b"
    and b2: "of_int b < (2::rat) powi (bitlen b)"
    by (simp_all add: two_powi_nat [symmetric])
  have "x < 2 powi (bitlen a) / 2 powi (bitlen b - 1)"
    unfolding x using a a2 b1 by (intro frac_less) simp_all
  also have "\<dots> = 2 powi (k + 1)"
    by (simp add: k_def power_int_diff power_int_add)
  finally have upper: "x < 2 powi (k + 1)" .
  have "2 powi (bitlen a - 1) / 2 powi (bitlen b) < x"
    unfolding x using b a1 b2 by (intro frac_less2) simp_all
  also have "2 powi (bitlen a - 1) / 2 powi (bitlen b) = (2::rat) powi (k - 1)"
    by (simp add: k_def power_int_diff)
  finally have lower: "2 powi (k - 1) < x" .
  have e: "floor_log2 x = (if 2 powi k \<le> x then k else k - 1)"
    by (simp add: floor_log2_def q k_def Let_def)
  show ?thesis
  proof (cases "2 powi k \<le> x")
    case True
    with e upper show ?thesis by simp
  next
    case False
    with e lower show ?thesis by simp
  qed
qed

lemma floor_log2_unique:
  assumes "2 powi e \<le> x" and "x < 2 powi (e + 1)"
  shows "floor_log2 x = e"
proof -
  from assms(1) have pos: "0 < x"
    using two_powi_pos [of e] by linarith
  define f where "f = floor_log2 x"
  from floor_log2_bounds [OF pos] have f: "2 powi f \<le> x" "x < 2 powi (f + 1)"
    by (simp_all add: f_def)
  have "\<not> e < f"
  proof
    assume "e < f"
    then have "(2::rat) powi (e + 1) \<le> 2 powi f" by (intro two_powi_mono) simp
    with f(1) assms(2) show False by simp
  qed
  moreover have "\<not> f < e"
  proof
    assume "f < e"
    then have "(2::rat) powi (f + 1) \<le> 2 powi e" by (intro two_powi_mono) simp
    with f(2) assms(1) show False by simp
  qed
  ultimately show ?thesis by (simp add: f_def)
qed

lemma round_half_even_int [simp]: "round_half_even (of_int n) = n"
  by (simp add: round_half_even_def)

lemma round_half_even_range:
  "\<lfloor>q\<rfloor> \<le> round_half_even q \<and> round_half_even q \<le> \<lfloor>q\<rfloor> + 1"
  by (simp add: round_half_even_def Let_def)

lemma round_half_even_minus: "round_half_even (- q) = - round_half_even q"
proof (cases "q = of_int \<lfloor>q\<rfloor>")
  case True
  then obtain n where "q = of_int n" ..
  then show ?thesis
    by (simp add: of_int_minus [symmetric] del: of_int_minus)
next
  case False
  then have fl: "\<lfloor>- q\<rfloor> = - \<lfloor>q\<rfloor> - 1"
    using floor_unique [of "- \<lfloor>q\<rfloor> - 1" "- q"] floor_correct [of q] by (simp add: less_le)
  have r: "0 < q - of_int \<lfloor>q\<rfloor>" "q - of_int \<lfloor>q\<rfloor> < 1"
    using False by linarith+
  show ?thesis
    using r by (auto simp: round_half_even_def Let_def fl)
qed

lemma fl_minus: "fl (- x) = - fl x"
  by (simp add: fl_def Let_def round_half_even_minus)

lemma fl_idem_pos:
  assumes "0 < x"
  shows "fl (fl x) = fl x"
proof -
  define e where "e = floor_log2 x"
  define u where "u = (2::rat) powi (e - 52)"
  define n where "n = round_half_even (x / u)"
  have u: "0 < u" by (simp add: u_def)
  from floor_log2_bounds [OF assms] have x: "2 powi e \<le> x" "x < 2 powi (e + 1)"
    by (simp_all add: e_def)
  have lo: "2 ^ 52 \<le> x / u"
  proof -
    have "2 ^ 52 * u = 2 powi e"
      by (simp add: u_def power_int_diff)
    with x(1) u show ?thesis by (simp add: pos_le_divide_eq)
  qed
  have hi: "x / u < 2 ^ 53"
  proof -
    have "2 ^ 53 * u = 2 powi (e + 1)"
      by (simp add: u_def power_int_diff power_int_add)
    with x(2) u show ?thesis by (simp add: pos_divide_less_eq)
  qed
  from lo have f1: "(2::int) ^ 52 \<le> \<lfloor>x / u\<rfloor>"
    by (simp add: le_floor_iff)
  from hi have f2: "\<lfloor>x / u\<rfloor> < (2::int) ^ 53"
    by (simp add: floor_less_iff)
  from round_half_even_range [of "x / u"]
  have "\<lfloor>x / u\<rfloor> \<le> n" "n \<le> \<lfloor>x / u\<rfloor> + 1"
    by (simp_all only: n_def)
  with f1 f2 have n: "2 ^ 52 \<le> n" "n \<le> 2 ^ 53"
    by linarith+
  have y: "fl x = of_int n * u"
    using assms by (simp add: fl_def Let_def n_def u_def e_def)
  from n u have ypos: "0 < of_int n * u"
    by (simp add: zero_less_mult_iff)
  show ?thesis
  proof (cases "n = 2 ^ 53")
    case True
    have "of_int n * u = 2 powi (e + 1)"
      by (simp add: True u_def power_int_diff power_int_add)
    then have "floor_log2 (of_int n * u) = e + 1"
      by (intro floor_log2_unique) (simp_all add: power_int_add)
    moreover have "of_int n * u / 2 powi (e + 1 - 52) = of_int (2 ^ 52)"
      by (simp add: True u_def power_int_diff power_int_add)
    moreover have "(of_int (2 ^ 52) :: rat) * 2 powi (e + 1 - 52) = of_int n * u"
      by (simp add: True u_def power_int_diff power_int_add)
    ultimately have "fl (of_int n * u) = of_int n * u"
      using ypos by (simp add: fl_def Let_def del: of_int_numeral of_int_power)
    with y show ?thesis by simp
  next
    case False
    with n have n': "n < 2 ^ 53" by simp
    have "2 powi e = 2 ^ 52 * u"
      by (simp add: u_def power_int_diff)
    also have "\<dots> \<le> of_int n * u"
      using n(1) u by simp
    finally have l: "2 powi e \<le> of_int n * u" .
    have "of_int n * u < 2 ^ 53 * u"
      using n' u by simp
    also have "\<dots> = 2 powi (e + 1)"
      by (simp add: u_def power_int_diff power_int_add)
    finally have "floor_log2 (of_int n * u) = e"
      using l by (intro floor_log2_unique)
    then have "fl (of_int n * u) = of_int n * u"
      using ypos u by (simp add: fl_def Let_def u_def [symmetric])
    with y show ?thesis by simp
  qed
qed

lemma fl_idem: "fl (fl x) = fl x"
proof (cases "0 < x")
  case True
  then show ?thesis by (rule fl_idem_pos)
next
  case False
  show ?thesis
  proof (cases "x = 0")
    case True
    then show ?thesis by (simp add: fl_def)
  next
    case nz: False
    with False have "0 < - x" by simp
    then have "fl (fl (- x)) = fl (- x)" by (rule fl_idem_pos)
    then show ?thesis by (simp add: fl_minus)
  qed
qed

lemma round_half_even_error: "\<bar>of_int (round_half_even q) - q\<bar> \<le> 1 / 2"
proof -
  define r where "r = q - of_int \<lfloor>q\<rfloor>"
  have r: "0 \<le> r" "r < 1"
    unfolding r_def by linarith+
  have q: "q = of_int \<lfloor>q\<rfloor> + r"
    by (simp add: r_def)
  have "round_half_even q = \<lfloor>q\<rfloor> \<and> r \<le> 1 / 2 \<or> round_half_even q = \<lfloor>q\<rfloor> + 1 \<and> 1 / 2 \<le> r"
    by (auto simp: round_half_even_def Let_def r_def)
  then show ?thesis
  proof
    assume "round_half_even q = \<lfloor>q\<rfloor> \<and> r \<le> 1 / 2"
    then have "of_int (round_half_even q) - q = - r" "r \<le> 1 / 2"
      using q by simp_all
    with r show ?thesis by simp
  next
    assume "round_half_even q = \<lfloor>q\<rfloor> + 1 \<and> 1 / 2 \<le> r"
    then have "of_int (round_half_even q) - q = 1 - r" "1 / 2 \<le> r"
      using q by simp_all
    with r show ?thesis by simp
  qed
qed

lemma fl_error_pos:
  assumes "0 < x"
  shows "\<bar>fl x - x\<bar> \<le> x / 2 ^ 53"
proof -
  define e where "e = floor_log2 x"
  define u where "u = (2::rat) powi (e - 52)"
  define n where "n = round_half_even (x / u)"
  have u: "0 < u" by (simp add: u_def)
  from floor_log2_bounds [OF assms] have x: "2 powi e \<le> x"
    by (simp add: e_def)
  have "2 ^ 52 * u = 2 powi e"
    by (simp add: u_def power_int_diff)
  with x have small: "u / 2 \<le> x / 2 ^ 53"
    by simp
  have y: "fl x = of_int n * u"
    using assms by (simp add: fl_def Let_def n_def u_def e_def)
  have "fl x - x = (of_int n - x / u) * u"
    using u by (simp add: y algebra_simps)
  then have "\<bar>fl x - x\<bar> = \<bar>of_int n - x / u\<bar> * u"
    using u by (simp add: abs_mult)
  also have "\<dots> \<le> 1 / 2 * u"
    using round_half_even_error [of "x / u"] u
    by (intro mult_right_mono) (simp_all add: n_def)
  finally show ?thesis
    using small by simp
qed

lemma fl_error: "\<bar>fl x - x\<bar> \<le> \<bar>x\<bar> / 2 ^ 53"
proof (cases "0 < x")
  case True
  with fl_error_pos [OF True] show ?thesis by simp
next
  case False
  show ?thesis
  proof (cases "x = 0")
    case True
    then show ?thesis by (simp add: fl_def)
  next
    case nz: False
    with False have neg: "0 < - x" by simp
    from fl_error_pos [OF neg] have "\<bar>- fl x + x\<bar> \<le> - x / 2 ^ 53"
      by (simp add: fl_minus)
    moreover have "\<bar>- fl x + x\<bar> = \<bar>fl x - x\<bar>"
      by (simp add: abs_minus_commute)
    ultimately show ?thesis
      using neg by simp
  qed
qed

lemma fl_step:
  assumes "\<bar>x\<bar> \<le> k"
  shows "\<bar>fl x - x\<bar> \<le> k / 2 ^ 53" and "\<bar>fl x\<bar> \<le> 2 * k"
proof -
  have "\<bar>x\<bar> / 2 ^ 53 \<le> k / 2 ^ 53"
    using assms by (simp add: divide_right_mono)
  with fl_error [of x] show near: "\<bar>fl x - x\<bar> \<le> k / 2 ^ 53"
    by linarith
  have "\<bar>x\<bar> / 2 ^ 53 \<le> \<bar>x\<bar>"
    by (simp add: field_simps)
  with fl_error [of x] assms show "\<bar>fl x\<bar> \<le> 2 * k"
    by linarith
qed

lemma totals_close:
  assumes "0 \<le> s" "0 \<le> t" "0 \<le> f" "0 \<le> d"
  shows "\<bar>num_sub (num_add (num_add s t) f) d - num_add (num_add (num_sub s d) t) f\<bar>
         \<le> (s + t + f + d) / 2 ^ 48"
proof -
  define m where "m = s + t + f + d"
  define a1 where "a1 = fl (s + t)"
  define a2 where "a2 = fl (a1 + f)"
  define a3 where "a3 = fl (a2 - d)"
  define b1 where "b1 = fl (s - d)"
  define b2 where "b2 = fl (b1 + t)"
  define b3 where "b3 = fl (b2 + f)"
  define v where "v = m / 2 ^ 53"
  have "\<bar>s + t\<bar> \<le> m"
    using assms by (simp add: m_def)
  from fl_step [OF this] have a1: "\<bar>a1 - (s + t)\<bar> \<le> v" "\<bar>a1\<bar> \<le> 2 * m"
    by (simp_all add: a1_def v_def)
  have "\<bar>a1 + f\<bar> \<le> 3 * m"
    using a1(2) assms by (auto simp: m_def abs_le_iff)
  from fl_step [OF this] have a2: "\<bar>a2 - (a1 + f)\<bar> \<le> 3 * v" "\<bar>a2\<bar> \<le> 6 * m"
    by (simp_all add: a2_def v_def)
  have "\<bar>a2 - d\<bar> \<le> 7 * m"
    using a2(2) assms by (auto simp: m_def abs_le_iff)
  from fl_step(1) [OF this] have a3: "\<bar>a3 - (a2 - d)\<bar> \<le> 7 * v"
    by (simp add: a3_def v_def)
  have "\<bar>s - d\<bar> \<le> m"
    using assms by (auto simp: m_def abs_le_iff)
  from fl_step [OF this] have b1: "\<bar>b1 - (s - d)\<bar> \<le> v" "\<bar>b1\<bar> \<le> 2 * m"
    by (simp_all add: b1_def v_def)
  have "\<bar>b1 + t\<bar> \<le> 3 * m"
    using b1(2) assms by (auto simp: m_def abs_le_iff)
  from fl_step [OF this] have b2: "\<bar>b2 - (b1 + t)\<bar> \<le> 3 * v" "\<bar>b2\<bar> \<le> 6 * m"
    by (simp_all add: b2_def v_def)
  have "\<bar>b2 + f\<bar> \<le> 7 * m"
    using b2(2) assms by (auto simp: m_def abs_le_iff)
  from fl_step(1) [OF this] have b3: "\<bar>b3 - (b2 + f)\<bar> \<le> 7 * v"
    by (simp add: b3_def v_def)
  have "\<bar>a3 - (s + t + f - d)\<bar> \<le> 11 * v"
    using a1(1) a2(1) a3 by (auto simp: abs_le_iff)
  moreover have "\<bar>b3 - (s + t + f - d)\<bar> \<le> 11 * v"
    using b1(1) b2(1) b3 by (auto simp: abs_le_iff)
  ultimately have "\<bar>a3 - b3\<bar> \<le> 22 * v"
    by (auto simp: abs_le_iff)
  also have "22 * v \<le> m / 2 ^ 48"
    using assms by (simp add: v_def m_def)
  finally show ?thesis
    by (simp add: num_add_def num_sub_def a1_def a2_def a3_def b1_def b2_def b3_def m_def)
qed

lemma num_results_rounded [simp]:
  "fl (num_add x y) = num_add x y" "fl (num_sub x y) = num_sub x y"
  "fl (num_mul x y) = num_mul x y"
  by (simp_all add: num_add_def num_sub_def num_mul_def fl_idem)

section \<open>Properties of the stock operations\<close>

lemma stock_nonneg_updateStock:
  "stock_nonneg d \<Longrightarrow> stock_nonneg (fst (updateStock d productId quantity))"
  by (auto simp: stock_nonneg_def updateStock_def save_product_def Let_def split: option.splits)

lemma stock_nonneg_updateStock_calls:
  "stock_nonneg d \<Longrightarrow> stock_nonneg (updateStock_calls d calls)"
proof (induction calls arbitrary: d)
  case Nil
  then show ?case by simp
next
  case (Cons call calls)
  obtain productId quantity where call: "call = (productId, quantity)"
    by (cases call)
  from Cons.prems have "stock_nonneg (fst (updateStock d productId quantity))"
    by (rule stock_nonneg_updateStock)
  then show ?case
    unfolding call by (simp add: Cons.IH)
qed

text \<open>
  C7. \<open>updateStock\<close> (the specification's \<open>decrementStock\<close>) fails with \<open>NotFound\<close>
  when no product has the id, fails with \<open>InsufficientStock\<close> when the stock is less
  than the quantity, and otherwise stores the product with \<open>stock - quantity\<close>.
  Consequently, if no stored stock is negative, none is after any sequence of calls.
\<close>

theorem updateStock_contract:
  "(products d productId = None \<longrightarrow> updateStock d productId quantity = (d, Inl NotFound)) \<and>
   (\<forall>product. products d productId = Some product \<and> p_stock product < quantity \<longrightarrow>
      updateStock d productId quantity = (d, Inl InsufficientStock)) \<and>
   (\<forall>product. products d productId = Some product \<and> \<not> p_stock product < quantity \<longrightarrow>
      updateStock d productId quantity =
        (d\<lparr>products := (products d)(productId \<mapsto> product\<lparr>p_stock := p_stock product - quantity\<rparr>)\<rparr>,
         Inr (product\<lparr>p_stock := p_stock product - quantity\<rparr>))) \<and>
   (stock_nonneg d \<longrightarrow> stock_nonneg (updateStock_calls d calls))"
proof -
  have absent: "updateStock d productId quantity = (d, Inl NotFound)"
    if "products d productId = None"
    using that by (simp add: updateStock_def)
  have short: "updateStock d productId quantity = (d, Inl InsufficientStock)"
    if "products d productId = Some product" "p_stock product < quantity" for product
    using that by (simp add: updateStock_def)
  have enough: "updateStock d productId quantity =
        (d\<lparr>products := (products d)(productId \<mapsto> product\<lparr>p_stock := p_stock product - quantity\<rparr>)\<rparr>,
         Inr (product\<lparr>p_stock := p_stock product - quantity\<rparr>))"
    if "products d productId = Some product" "\<not> p_stock product < quantity" for product
    using that by (simp add: updateStock_def save_product_def Let_def)
  have "stock_nonneg (updateStock_calls d calls)" if "stock_nonneg d"
    using that by (rule stock_nonneg_updateStock_calls)
  with absent short enough show ?thesis
    by blast
qed

theorem updateStock_contract_witness:
  "updateStock (ex_db [] []) 99 1 = (ex_db [] [], Inl NotFound) \<and>
   updateStock (ex_db [] []) 2 3 = (ex_db [] [], Inl InsufficientStock) \<and>
   map_option p_stock (products (fst (updateStock (ex_db [] []) 1 4)) 1) = Some 6 \<and>
   snd (updateStock (ex_db [] []) 1 4) = Inr (ex_apples\<lparr>p_stock := 6\<rparr>) \<and>
   stock_nonneg (updateStock_calls (ex_db [] []) [(1, 4), (1, 7), (2, 1), (2, 1)])"
proof -
  have nonneg: "stock_nonneg (ex_db [] [])"
    by (simp add: stock_nonneg_def ex_db_def ex_products_def ex_apples_def ex_bread_def
        ex_cheese_def)
  have missing: "products (ex_db [] []) 99 = None"
    by (simp add: ex_db_def ex_products_def)
  have short: "products (ex_db [] []) 2 = Some ex_bread \<and> p_stock ex_bread < 3"
    by (simp add: ex_db_def ex_products_def ex_bread_def)
  have enough: "products (ex_db [] []) 1 = Some ex_apples \<and> \<not> p_stock ex_apples < 4"
    by (simp add: ex_db_def ex_products_def ex_apples_def)
  from updateStock_contract [of "ex_db [] []" 99 1] missing
  have c1: "updateStock (ex_db [] []) 99 1 = (ex_db [] [], Inl NotFound)"
    by simp
  from updateStock_contract [of "ex_db [] []" 2 3] short
  have c2: "updateStock (ex_db [] []) 2 3 = (ex_db [] [], Inl InsufficientStock)"
    by blast
  from updateStock_contract [of "ex_db [] []" 1 4] enough
  have c3: "updateStock (ex_db [] []) 1 4 =
      ((ex_db [] [])\<lparr>products := (products (ex_db [] []))(1 \<mapsto> ex_apples\<lparr>p_stock := p_stock ex_apples - 4\<rparr>)\<rparr>,
       Inr (ex_apples\<lparr>p_stock := p_stock ex_apples - 4\<rparr>))"
    by blast
  from updateStock_contract [of "ex_db [] []" _ _ "[(1, 4), (1, 7), (2, 1), (2, 1)]"] nonneg
  have c4: "stock_nonneg (updateStock_calls (ex_db [] []) [(1, 4), (1, 7), (2, 1), (2, 1)])"
    by blast
  show ?thesis
    using c1 c2 c3 c4 by (simp add: ex_apples_def)
qed

section \<open>Properties of the availability check\<close>

lemma verify_loop_acc:
  "verify_loop d lines (acc @ acc') = acc @ verify_loop d lines acc'"
  by (induction lines arbitrary: acc') (auto split: option.splits)

lemma verify_loop_append:
  "verify_loop d lines acc = acc @ verify_loop d lines []"
  using verify_loop_acc [of d lines acc "[]"] by simp

lemma verify_loop_missing:
  assumes "item \<in> set lines" and "products d (ci_product item) = None"
  shows "\<lparr>u_productId = ci_product item, u_productName = ci_productName item,
           u_requested = ci_quantity item, u_available = 0, u_isAvailable = False\<rparr>
         \<in> set (verify_loop d lines [])"
  using assms
proof (induction lines)
  case Nil
  then show ?case by simp
next
  case (Cons line lines)
  show ?case
  proof (cases "item = line")
    case True
    with Cons.prems(2) show ?thesis
      by (simp add: verify_loop_append [of d lines "[_]"])
  next
    case False
    with Cons have "\<lparr>u_productId = ci_product item, u_productName = ci_productName item,
           u_requested = ci_quantity item, u_available = 0, u_isAvailable = False\<rparr>
         \<in> set (verify_loop d lines [])"
      by simp
    then show ?thesis
      by (auto simp: verify_loop_append [of d lines "[_]"] split: option.splits)
  qed
qed

text \<open>
  C10. When the product of a cart line is no longer in the catalog,
  \<open>verifyAvailability\<close> returns its ordinary result with \<open>isValid\<close> false and an entry
  for that line with \<open>available: 0\<close> and \<open>isAvailable: false\<close>; it raises no error
  (its result type has none).
\<close>

theorem verifyAvailability_deleted_product:
  assumes "item \<in> set (c_items this)" and "products d (ci_product item) = None"
  shows "isValid (verifyAvailability d this) = False \<and>
         \<lparr>u_productId = ci_product item, u_productName = ci_productName item,
           u_requested = ci_quantity item, u_available = 0, u_isAvailable = False\<rparr>
         \<in> set (unavailableItems (verifyAvailability d this))"
proof -
  from assms have "\<lparr>u_productId = ci_product item, u_productName = ci_productName item,
           u_requested = ci_quantity item, u_available = 0, u_isAvailable = False\<rparr>
         \<in> set (verify_loop d (c_items this) [])"
    by (rule verify_loop_missing)
  then show ?thesis
    by (auto simp: verifyAvailability_def Let_def)
qed

theorem verifyAvailability_deleted_product_witness:
  "isValid (verifyAvailability (ex_db [] [])
      (ex_cart [ex_line 1 2 3 ''Apples'', ex_line 99 1 5 ''Gone''] 0)) = False \<and>
   \<lparr>u_productId = 99, u_productName = ''Gone'', u_requested = 1, u_available = 0,
     u_isAvailable = False\<rparr>
     \<in> set (unavailableItems (verifyAvailability (ex_db [] [])
          (ex_cart [ex_line 1 2 3 ''Apples'', ex_line 99 1 5 ''Gone''] 0)))"
  using verifyAvailability_deleted_product
    [of "ex_line 99 1 5 ''Gone''" "ex_cart [ex_line 1 2 3 ''Apples'', ex_line 99 1 5 ''Gone''] 0"
        "ex_db [] []"]
  by (simp add: ex_cart_def ex_line_def ex_db_def ex_products_def)

section \<open>Properties of the status operations\<close>

lemma putOrderStatus_cancelled:
  assumes "findOrderById d orderId = Some ord" and "o_status ord = ''cancelled''"
  shows "fst (putOrderStatus ev d user orderId statusField) = d"
    and "isl (snd (putOrderStatus ev d user orderId statusField))"
  using assms by (auto simp: putOrderStatus_def Let_def split: option.splits)

text \<open>
  C3, as the code has it. The handler of \<open>PUT /orders/:id/status\<close> refuses every
  request on a cancelled order and changes nothing; the refusal is \<open>InvalidTransition\<close>
  when the request is a settable status from a retailer of the order. \<open>cancelOrder\<close>
  fails with \<open>InvalidTransition\<close> on a delivered order and changes nothing.
\<close>

theorem terminal_guards:
  "(findOrderById d orderId = Some ord \<and> o_status ord = ''cancelled'' \<longrightarrow>
      fst (putOrderStatus ev d user orderId statusField) = d \<and>
      isl (snd (putOrderStatus ev d user orderId statusField)) \<and>
      (status \<in> set validStatuses \<and> list_ex (\<lambda>item. oi_retailer item = user) (o_items ord) \<longrightarrow>
         putOrderStatus ev d user orderId (Some status) = (d, Inl InvalidTransition))) \<and>
   (o_status this = ''delivered'' \<longrightarrow> cancelOrder ev d this reason = (d, Inl InvalidTransition))"
proof -
  have "putOrderStatus ev d user orderId (Some status) = (d, Inl InvalidTransition)"
    if "findOrderById d orderId = Some ord" "o_status ord = ''cancelled''"
       "status \<in> set validStatuses" "list_ex (\<lambda>item. oi_retailer item = user) (o_items ord)"
  proof -
    from that(3) have "status \<noteq> []"
      by (auto simp: validStatuses_def)
    with that show ?thesis
      by (simp add: putOrderStatus_def Let_def)
  qed
  then show ?thesis
    by (simp add: putOrderStatus_cancelled cancelOrder_def)
qed

theorem terminal_guards_witness:
  "putOrderStatus ex_env (ex_db [] [ex_order ''NM-261101-0001'' ''cancelled'']) 7 40 (Some ''confirmed'')
     = (ex_db [] [ex_order ''NM-261101-0001'' ''cancelled''], Inl InvalidTransition) \<and>
   cancelOrder ex_env (ex_db [] [ex_order ''NM-261101-0001'' ''delivered''])
       (ex_order ''NM-261101-0001'' ''delivered'') ''changed my mind''
     = (ex_db [] [ex_order ''NM-261101-0001'' ''delivered''], Inl InvalidTransition)"
proof -
  have found: "findOrderById (ex_db [] [ex_order ''NM-261101-0001'' ''cancelled'']) 40
      = Some (ex_order ''NM-261101-0001'' ''cancelled'')"
    by (simp add: findOrderById_def ex_db_def ex_order_def)
  have cancelled: "o_status (ex_order ''NM-261101-0001'' ''cancelled'') = ''cancelled''"
    and delivered: "o_status (ex_order ''NM-261101-0001'' ''delivered'') = ''delivered''"
    and owner: "list_ex (\<lambda>item. oi_retailer item = 7) (o_items (ex_order ''NM-261101-0001'' ''cancelled''))"
    by (simp_all add: ex_order_def)
  have settable: "''confirmed'' \<in> set validStatuses"
    by (simp add: validStatuses_def)
  from terminal_guards [of "ex_db [] [ex_order ''NM-261101-0001'' ''cancelled'']" 40
      "ex_order ''NM-261101-0001'' ''cancelled''" ex_env 7 "Some ''confirmed''" "''confirmed''"]
    found cancelled owner settable
  have c1: "putOrderStatus ex_env (ex_db [] [ex_order ''NM-261101-0001'' ''cancelled'']) 7 40
      (Some ''confirmed'') = (ex_db [] [ex_order ''NM-261101-0001'' ''cancelled''], Inl InvalidTransition)"
    by blast
  from terminal_guards [where this = "ex_order ''NM-261101-0001'' ''delivered''"] delivered
  have c2: "cancelOrder ex_env (ex_db [] [ex_order ''NM-261101-0001'' ''delivered''])
       (ex_order ''NM-261101-0001'' ''delivered'') ''changed my mind''
     = (ex_db [] [ex_order ''NM-261101-0001'' ''delivered''], Inl InvalidTransition)"
    by blast
  from c1 c2 show ?thesis by simp
qed

text \<open>
  C3 as stated fails. A delivered order accepts a status update, through the route
  handler and through \<open>updateStatus\<close>, and its status changes; a cancelled order accepts
  \<open>updateStatus\<close> and a second \<open>cancelOrder\<close>.
\<close>

theorem terminal_absorption_counterexample:
  "map o_status (orders (fst (putOrderStatus ex_env
       (ex_db [] [ex_order ''NM-261101-0001'' ''delivered'']) 7 40 (Some ''confirmed''))))
     = [''confirmed''] \<and>
   isl (snd (putOrderStatus ex_env
       (ex_db [] [ex_order ''NM-261101-0001'' ''delivered'']) 7 40 (Some ''confirmed''))) = False \<and>
   map o_status (orders (fst (updateStatus ex_env
       (ex_db [] [ex_order ''NM-261101-0001'' ''delivered''])
       (ex_order ''NM-261101-0001'' ''delivered'') ''processing'' [])))
     = [''processing''] \<and>
   map o_status (orders (fst (updateStatus ex_env
       (ex_db [] [ex_order ''NM-261101-0001'' ''cancelled''])
       (ex_order ''NM-261101-0001'' ''cancelled'') ''delivered'' [])))
     = [''delivered''] \<and>
   isl (snd (cancelOrder ex_env (ex_db [] [ex_order ''NM-261101-0001'' ''cancelled''])
       (ex_order ''NM-261101-0001'' ''cancelled'') ''again'')) = False"
  by (simp add: putOrderStatus_def updateStatus_def cancelOrder_def save_order_def
      set_status_def findOrderById_def validStatuses_def ex_db_def ex_order_def ex_env_def
      Let_def)

section \<open>Properties of the cart\<close>

lemma findIndex_None: "findIndex P xs = None \<longleftrightarrow> (\<forall>x \<in> set xs. \<not> P x)"
  by (induction xs) auto

lemma findIndex_snoc:
  "\<forall>x \<in> set xs. \<not> P x \<Longrightarrow> P y \<Longrightarrow> findIndex P (xs @ [y]) = Some (length xs)"
  by (induction xs) auto

lemma cart_pre_save_mixed:
  assumes "x \<in> set (c_items c)" and "y \<in> set (c_items c)"
    and "ci_retailerId x \<noteq> ci_retailerId y"
  shows "cart_pre_save c = Inl CrossRetailerConflict"
proof (cases "c_items c")
  case Nil
  with assms show ?thesis by simp
next
  case (Cons firstItem rest)
  have "\<exists>item \<in> set (c_items c). ci_retailerId item \<noteq> ci_retailerId firstItem"
    using assms by metis
  then have "\<not> list_all (\<lambda>item. ci_retailerId item = ci_retailerId firstItem) (c_items c)"
    by (simp add: list_all_iff)
  with Cons show ?thesis
    by (simp add: cart_pre_save_def Let_def)
qed

lemma cart_pre_save_uniform:
  assumes "\<forall>item \<in> set (c_items c). ci_retailerId item = A" and "c_items c \<noteq> []"
  shows "cart_pre_save c = Inr (c\<lparr>c_retailer := Some A\<rparr>)"
proof (cases "c_items c")
  case Nil
  with assms show ?thesis by simp
next
  case (Cons firstItem rest)
  with assms have "ci_retailerId firstItem = A" by simp
  moreover have "list_all (\<lambda>item. ci_retailerId item = A) (c_items c)"
    using assms by (simp add: list_all_iff)
  ultimately show ?thesis
    using Cons by (simp add: cart_pre_save_def Let_def)
qed

lemma cart_pre_save_Inr:
  assumes "cart_pre_save c = Inr c'"
  shows "c_items c' = c_items c" and "single_retailer c'" and "c_id c' = c_id c"
  using assms
  by (auto simp: cart_pre_save_def single_retailer_def Let_def list_all_iff
      split: list.splits if_splits)

lemma addItem_conflict:
  assumes "c_items this \<noteq> []"
    and "\<forall>item \<in> set (c_items this). ci_retailerId item = A"
    and "products d productId = Some product"
    and "p_retailer product \<noteq> A"
    and "productId \<notin> ci_product ` set (c_items this)"
    and "p_isAvailable product" and "quantity \<le> p_stock product"
  shows "addItem d this productId quantity = (d, Inl CrossRetailerConflict)"
proof -
  from assms(5) have none: "findIndex (\<lambda>item. ci_product item = productId) (c_items this) = None"
    by (auto simp: findIndex_None)
  from assms(1) obtain x where x: "x \<in> set (c_items this)"
    by (cases "c_items this") auto
  define new where "new = \<lparr>ci_product = productId, ci_quantity = quantity,
      ci_price = p_price product, ci_productName = p_name product,
      ci_productImage = (case p_images product of [] \<Rightarrow> [] | img # _ \<Rightarrow> img),
      ci_retailerId = p_retailer product\<rparr>"
  have conflict: "cart_pre_save (c\<lparr>c_items := c_items this @ [new]\<rparr>) = Inl CrossRetailerConflict" for c
    using x assms(2,4)
    by (intro cart_pre_save_mixed [of x _ new]) (auto simp: new_def)
  have conflict': "cart_pre_save (this\<lparr>c_items := c_items this @ [new], c_retailer := r\<rparr>) = Inl CrossRetailerConflict" for r
    using x assms(2,4)
    by (intro cart_pre_save_mixed [of x _ new]) (auto simp: new_def)
  show ?thesis
    using assms(3,6,7) none conflict [of this] conflict'
    by (simp add: addItem_def Let_def save_cart_def new_def)
qed

lemma save_cart_failed: "save_cart d c = (d', Inl e) \<Longrightarrow> d' = d"
  by (auto simp: save_cart_def split: sum.splits)

lemma save_cart_saved:
  assumes "save_cart d c = (d', Inr c')"
  shows "single_retailer c'" and "c_id c' = c_id c" and "c_items c' = c_items c"
    and "d' = d\<lparr>carts := write_cart (carts d) c'\<rparr>"
proof -
  from assms have pre: "cart_pre_save c = Inr c'"
    by (auto simp: save_cart_def split: sum.splits)
  from cart_pre_save_Inr [OF pre]
  show "single_retailer c'" and "c_id c' = c_id c" and "c_items c' = c_items c"
    by simp_all
  from assms pre show "d' = d\<lparr>carts := write_cart (carts d) c'\<rparr>"
    by (simp add: save_cart_def)
qed

lemma addItem_save:
  assumes "addItem d this productId quantity = (d', r)"
  shows "(d' = d \<and> (r = Inl NotFound \<or> r = Inl Unavailable)) \<or>
         (\<exists>c. c_id c = c_id this \<and> save_cart d c = (d', r))"
  using assms
  by (auto simp: addItem_def Let_def split: option.splits if_splits)

lemma addItem_failed: "addItem d this productId quantity = (d', Inl e) \<Longrightarrow> d' = d"
  using addItem_save [of d this productId quantity d' "Inl e"] save_cart_failed by blast

lemma addItem_saved:
  assumes "addItem d this productId quantity = (d', Inr this')"
  shows "single_retailer this'" and "c_id this' = c_id this"
    and "d' = d\<lparr>carts := write_cart (carts d) this'\<rparr>"
proof -
  from addItem_save [OF assms] obtain c where c: "c_id c = c_id this" "save_cart d c = (d', Inr this')"
    by auto
  from save_cart_saved [OF c(2)] c(1)
  show "single_retailer this'" and "c_id this' = c_id this"
    and "d' = d\<lparr>carts := write_cart (carts d) this'\<rparr>"
    by simp_all
qed

lemma write_cart_all:
  "list_all P cs \<Longrightarrow> P c \<Longrightarrow> list_all P (write_cart cs c)"
  by (auto simp: write_cart_def list_all_iff)

lemma save_cart_invariant:
  assumes "list_all single_retailer (carts d)"
  shows "list_all single_retailer (carts (fst (save_cart d c)))"
proof (cases "save_cart d c")
  case (Pair d' r)
  show ?thesis
  proof (cases r)
    case (Inl e)
    with Pair save_cart_failed [of d c d' e] assms show ?thesis by simp
  next
    case (Inr c')
    with Pair save_cart_saved [of d c d' c'] assms show ?thesis
      by (simp add: write_cart_all)
  qed
qed

lemma addItem_invariant:
  assumes "list_all single_retailer (carts d)"
  shows "list_all single_retailer (carts (fst (addItem d this productId quantity)))"
proof (cases "addItem d this productId quantity")
  case (Pair d' r)
  from addItem_save [OF Pair] show ?thesis
  proof
    assume "d' = d \<and> (r = Inl NotFound \<or> r = Inl Unavailable)"
    with Pair assms show ?thesis by simp
  next
    assume "\<exists>c. c_id c = c_id this \<and> save_cart d c = (d', r)"
    then obtain c where "save_cart d c = (d', r)" by blast
    with save_cart_invariant [OF assms, of c] Pair show ?thesis by simp
  qed
qed

text \<open>
  C6. The cart has lines, all of retailer \<open>A\<close>; the product belongs to another retailer,
  is not yet a line of the cart, and can be ordered in the quantity asked (the route
  handler has checked that the quantity is positive). Then \<open>addItem\<close> fails with
  \<open>CrossRetailerConflict\<close> and the database is as before. Whatever the arguments, a
  failed \<open>addItem\<close> stores nothing, a successful one stores a cart whose lines all carry
  one retailer, and so do \<open>removeItem\<close> and \<open>clearCart\<close>: if the lines of every stored
  cart carry a single retailer, they still do afterwards.
\<close>

theorem addItem_cross_retailer:
  "(c_items this \<noteq> [] \<and> (\<forall>item \<in> set (c_items this). ci_retailerId item = A) \<and>
    products d productId = Some product \<and> p_retailer product \<noteq> A \<and>
    productId \<notin> ci_product ` set (c_items this) \<and>
    p_isAvailable product \<and> 0 < quantity \<and> quantity \<le> p_stock product \<longrightarrow>
      addItem d this productId quantity = (d, Inl CrossRetailerConflict)) \<and>
   (addItem d this productId quantity = (d', Inl e) \<longrightarrow> d' = d) \<and>
   (addItem d this productId quantity = (d', Inr this') \<longrightarrow>
      single_retailer this' \<and> d' = d\<lparr>carts := write_cart (carts d) this'\<rparr>) \<and>
   (list_all single_retailer (carts d) \<longrightarrow>
      list_all single_retailer (carts (fst (addItem d this productId quantity))) \<and>
      list_all single_retailer (carts (fst (removeItem d this productId))) \<and>
      list_all single_retailer (carts (fst (clearCart d this))))"
proof -
  have "addItem d this productId quantity = (d, Inl CrossRetailerConflict)"
    if "c_items this \<noteq> []" "\<forall>item \<in> set (c_items this). ci_retailerId item = A"
      "products d productId = Some product" "p_retailer product \<noteq> A"
      "productId \<notin> ci_product ` set (c_items this)"
      "p_isAvailable product" "quantity \<le> p_stock product"
    using that by (rule addItem_conflict)
  moreover have "d' = d" if "addItem d this productId quantity = (d', Inl e)"
    using that by (rule addItem_failed)
  moreover have "single_retailer this' \<and> d' = d\<lparr>carts := write_cart (carts d) this'\<rparr>"
    if "addItem d this productId quantity = (d', Inr this')"
    using addItem_saved [OF that] by simp
  moreover have "list_all single_retailer (carts (fst (addItem d this productId quantity))) \<and>
      list_all single_retailer (carts (fst (removeItem d this productId))) \<and>
      list_all single_retailer (carts (fst (clearCart d this)))"
    if "list_all single_retailer (carts d)"
    using that
    by (simp add: addItem_invariant save_cart_invariant removeItem_def clearCart_def)
  ultimately show ?thesis by blast
qed

theorem addItem_cross_retailer_witness:
  "addItem (ex_db [ex_cart [ex_line 1 2 3 ''Apples''] 0] []) (ex_cart [ex_line 1 2 3 ''Apples''] 0) 3 1
     = (ex_db [ex_cart [ex_line 1 2 3 ''Apples''] 0] [], Inl CrossRetailerConflict) \<and>
   list_all single_retailer (carts (fst
     (addItem (ex_db [ex_cart [ex_line 1 2 3 ''Apples''] 0] [])
        (ex_cart [ex_line 1 2 3 ''Apples''] 0) 2 1)))"
proof -
  let ?c = "ex_cart [ex_line 1 2 3 ''Apples''] 0"
  let ?d = "ex_db [?c] []"
  have pre: "c_items ?c \<noteq> [] \<and> (\<forall>item \<in> set (c_items ?c). ci_retailerId item = 7) \<and>
      products ?d 3 = Some ex_cheese \<and> p_retailer ex_cheese \<noteq> 7 \<and>
      3 \<notin> ci_product ` set (c_items ?c) \<and>
      p_isAvailable ex_cheese \<and> (0::int) < 1 \<and> 1 \<le> p_stock ex_cheese"
    by (simp add: ex_cart_def ex_line_def ex_db_def ex_products_def ex_cheese_def)
  have inv: "list_all single_retailer (carts ?d)"
    by (simp add: single_retailer_def ex_cart_def ex_db_def)
  from addItem_cross_retailer [of ?c 7 ?d 3 ex_cheese 1] pre
  have c1: "addItem ?d ?c 3 1 = (?d, Inl CrossRetailerConflict)"
    by blast
  from addItem_cross_retailer [of ?c _ ?d 2 _ 1] inv
  have c2: "list_all single_retailer (carts (fst (addItem ?d ?c 2 1)))"
    by blast
  from c1 c2 show ?thesis by simp
qed

text \<open>
  C9. The cart has no line for \<open>P\<close>; \<open>P\<close> can be ordered at both adds (in stock for
  the quantity of that add, and of the retailer of the cart's lines at the first add).
  Adding \<open>P\<close> with quantity 2 and then with quantity 3 succeeds twice, and the cart then
  has exactly one line for \<open>P\<close>, with quantity 5 and the price \<open>P\<close> has in the catalog at
  the second add.
\<close>

theorem addItem_twice:
  assumes "P \<notin> ci_product ` set (c_items this)"
    and "products d1 P = Some prod1" and "p_isAvailable prod1" and "2 \<le> p_stock prod1"
    and "\<forall>item \<in> set (c_items this). ci_retailerId item = p_retailer prod1"
    and "products d2 P = Some prod2" and "p_isAvailable prod2" and "3 \<le> p_stock prod2"
  shows "\<exists>d1' this1 d2' this2 line.
           addItem d1 this P 2 = (d1', Inr this1) \<and>
           addItem d2 this1 P 3 = (d2', Inr this2) \<and>
           filter (\<lambda>item. ci_product item = P) (c_items this2) = [line] \<and>
           ci_quantity line = 5 \<and> ci_price line = p_price prod2"
proof -
  define new where "new = \<lparr>ci_product = P, ci_quantity = 2,
      ci_price = p_price prod1, ci_productName = p_name prod1,
      ci_productImage = (case p_images prod1 of [] \<Rightarrow> [] | img # _ \<Rightarrow> img),
      ci_retailerId = p_retailer prod1\<rparr>"
  define A where "A = p_retailer prod1"
  define this1 where "this1 = this\<lparr>c_items := c_items this @ [new], c_retailer := Some A\<rparr>"
  define line where "line = new\<lparr>ci_quantity := 5, ci_price := p_price prod2\<rparr>"
  define this2 where "this2 = this1\<lparr>c_items := c_items this @ [line], c_retailer := Some A\<rparr>"
  from assms(1) have absent: "\<forall>item \<in> set (c_items this). ci_product item \<noteq> P"
    by auto
  then have none: "findIndex (\<lambda>item. ci_product item = P) (c_items this) = None"
    by (simp add: findIndex_None)
  have pre1: "cart_pre_save (c\<lparr>c_items := c_items this @ [new]\<rparr>)
      = Inr (c\<lparr>c_items := c_items this @ [new], c_retailer := Some A\<rparr>)" for c
    using assms(5) cart_pre_save_uniform [of "c\<lparr>c_items := c_items this @ [new]\<rparr>" A]
    by (auto simp: new_def A_def)
  have pre1': "cart_pre_save (this\<lparr>c_items := c_items this @ [new], c_retailer := r\<rparr>)
      = Inr this1" for r
    using assms(5)
      cart_pre_save_uniform [of "this\<lparr>c_items := c_items this @ [new], c_retailer := r\<rparr>" A]
    by (auto simp: new_def A_def this1_def)
  have add1: "addItem d1 this P 2 = (d1\<lparr>carts := write_cart (carts d1) this1\<rparr>, Inr this1)"
    using assms(2,3,4) none pre1 [of this] pre1'
    by (simp add: addItem_def Let_def save_cart_def new_def [symmetric] this1_def)
  have found: "findIndex (\<lambda>item. ci_product item = P) (c_items this1) = Some (length (c_items this))"
    using absent by (simp add: this1_def findIndex_snoc new_def)
  have pre2: "cart_pre_save (this1\<lparr>c_items := c_items this @ [line]\<rparr>) = Inr this2"
    using assms(5)
      cart_pre_save_uniform [of "this1\<lparr>c_items := c_items this @ [line]\<rparr>" A]
    by (auto simp: new_def A_def this1_def this2_def line_def)
  have add2: "addItem d2 this1 P 3 = (d2\<lparr>carts := write_cart (carts d2) this2\<rparr>, Inr this2)"
    using assms(6,7,8) found pre2
    by (simp add: addItem_def Let_def save_cart_def this1_def line_def new_def)
  have "filter (\<lambda>item. ci_product item = P) (c_items this2) = [line]"
    using absent by (simp add: this2_def this1_def line_def new_def)
  moreover have "ci_quantity line = 5" "ci_price line = p_price prod2"
    by (simp_all add: line_def)
  ultimately show ?thesis
    using add1 add2 by blast
qed


theorem addItem_twice_witness:
  "\<exists>d1' this1 d2' this2 line.
     addItem (ex_db [] []) (ex_cart [] 0) 1 2 = (d1', Inr this1) \<and>
     addItem ((ex_db [] [])\<lparr>products := ex_products(1 \<mapsto> ex_apples\<lparr>p_price := 4\<rparr>)\<rparr>) this1 1 3
       = (d2', Inr this2) \<and>
     filter (\<lambda>item. ci_product item = 1) (c_items this2) = [line] \<and>
     ci_quantity line = 5 \<and> ci_price line = 4"
  using addItem_twice [of 1 "ex_cart [] 0" "ex_db [] []" ex_apples
      "(ex_db [] [])\<lparr>products := ex_products(1 \<mapsto> ex_apples\<lparr>p_price := 4\<rparr>)\<rparr>"
      "ex_apples\<lparr>p_price := 4\<rparr>"]
  by (simp add: ex_cart_def ex_db_def ex_products_def ex_apples_def)

section \<open>Properties of the pipeline\<close>

lemma verify_loop_short:
  assumes "item \<in> set lines" and "products d (ci_product item) = Some product"
    and "\<not> p_isAvailable product \<or> p_stock product < ci_quantity item"
  shows "\<lparr>u_productId = ci_product item, u_productName = ci_productName item,
           u_requested = ci_quantity item, u_available = p_stock product,
           u_isAvailable = p_isAvailable product\<rparr>
         \<in> set (verify_loop d lines [])"
  using assms
proof (induction lines)
  case Nil
  then show ?case by simp
next
  case (Cons line lines)
  show ?case
  proof (cases "item = line")
    case True
    with Cons.prems(2,3) show ?thesis
      by (auto simp: verify_loop_append [of d lines "[_]"])
  next
    case False
    with Cons have "\<lparr>u_productId = ci_product item, u_productName = ci_productName item,
           u_requested = ci_quantity item, u_available = p_stock product,
           u_isAvailable = p_isAvailable product\<rparr>
         \<in> set (verify_loop d lines [])"
      by simp
    then show ?thesis
      by (auto simp: verify_loop_append [of d lines "[_]"] split: option.splits)
  qed
qed

text \<open>
  C4. The customer's cart has a line for product \<open>P\<close> with quantity 3 and the catalog
  holds \<open>P\<close> with stock 1. Then the commit operation (\<open>POST /order\<close>) answers with
  \<open>ItemsUnavailable\<close>, whose list has the entry for \<open>P\<close> with \<open>requested: 3\<close> and
  \<open>available: 1\<close>, and leaves the database as it was: no order is created and no stock
  changes. \<open>Order.createFromCart\<close> itself, called on that cart, throws its error (which
  carries only the message) and also leaves the database as it was.
\<close>

theorem commit_reverification:
  assumes "truthy paymentMethod"
    and "findCartByCustomer d user = Some c"
    and "item \<in> set (c_items c)" and "ci_product item = P" and "ci_quantity item = 3"
    and "products d P = Some product" and "p_stock product = 1"
  shows "(\<exists>unavailable.
           postOrder ev d user paymentMethod deliveryAddress deliveryPhone deliveryInstructions
             = (d, Inl (ItemsUnavailable unavailable)) \<and>
           \<lparr>u_productId = P, u_productName = ci_productName item, u_requested = 3,
             u_available = 1, u_isAvailable = p_isAvailable product\<rparr> \<in> set unavailable) \<and>
         (findCartById d cartId = Some c \<longrightarrow>
            createFromCart ev d cartId pd dd = (d, Inl SomeItemsUnavailable))"
proof -
  from assms have entry: "\<lparr>u_productId = P, u_productName = ci_productName item, u_requested = 3,
             u_available = 1, u_isAvailable = p_isAvailable product\<rparr>
         \<in> set (verify_loop d (c_items c) [])"
    using verify_loop_short [of item "c_items c" d product] by simp
  then have invalid: "\<not> isValid (verifyAvailability d c)"
    and listed: "\<lparr>u_productId = P, u_productName = ci_productName item, u_requested = 3,
             u_available = 1, u_isAvailable = p_isAvailable product\<rparr>
         \<in> set (unavailableItems (verifyAvailability d c))"
    by (auto simp: verifyAvailability_def Let_def)
  from assms(3) have nonempty: "c_items c \<noteq> []" by auto
  from assms(1) obtain chosen where "paymentMethod = Some chosen" "chosen \<noteq> []"
    by (auto simp: truthy_def split: option.splits)
  with assms(2) nonempty invalid
  have "postOrder ev d user paymentMethod deliveryAddress deliveryPhone deliveryInstructions
      = (d, Inl (ItemsUnavailable (unavailableItems (verifyAvailability d c))))"
    by (simp add: postOrder_def Let_def)
  with listed have "\<exists>unavailable.
           postOrder ev d user paymentMethod deliveryAddress deliveryPhone deliveryInstructions
             = (d, Inl (ItemsUnavailable unavailable)) \<and>
           \<lparr>u_productId = P, u_productName = ci_productName item, u_requested = 3,
             u_available = 1, u_isAvailable = p_isAvailable product\<rparr> \<in> set unavailable"
    by blast
  moreover have "createFromCart ev d cartId pd dd = (d, Inl SomeItemsUnavailable)"
    if "findCartById d cartId = Some c"
    using that nonempty invalid by (simp add: createFromCart_def)
  ultimately show ?thesis by blast
qed

theorem commit_reverification_witness:
  "snd (postOrder ex_env (ex_db [ex_cart [ex_line 2 3 2 ''Bread''] 0] []) 20
          (Some ''cash_on_delivery'') None None None)
     = Inl (ItemsUnavailable [\<lparr>u_productId = 2, u_productName = ''Bread'', u_requested = 3,
                                u_available = 1, u_isAvailable = True\<rparr>]) \<and>
   fst (postOrder ex_env (ex_db [ex_cart [ex_line 2 3 2 ''Bread''] 0] []) 20
          (Some ''cash_on_delivery'') None None None)
     = ex_db [ex_cart [ex_line 2 3 2 ''Bread''] 0] [] \<and>
   createFromCart ex_env (ex_db [ex_cart [ex_line 2 3 2 ''Bread''] 0] []) 30 ex_pd ex_dd
     = (ex_db [ex_cart [ex_line 2 3 2 ''Bread''] 0] [], Inl SomeItemsUnavailable)"
proof -
  let ?c = "ex_cart [ex_line 2 3 2 ''Bread''] 0"
  let ?d = "ex_db [?c] []"
  have payload: "snd (postOrder ex_env ?d 20 (Some ''cash_on_delivery'') None None None)
     = Inl (ItemsUnavailable [\<lparr>u_productId = 2, u_productName = ''Bread'', u_requested = 3,
                                u_available = 1, u_isAvailable = True\<rparr>])"
    by code_simp
  have pre: "truthy (Some ''cash_on_delivery'')" "findCartByCustomer ?d 20 = Some ?c"
    "ex_line 2 3 2 ''Bread'' \<in> set (c_items ?c)" "ci_product (ex_line 2 3 2 ''Bread'') = 2"
    "ci_quantity (ex_line 2 3 2 ''Bread'') = 3" "products ?d 2 = Some ex_bread"
    "p_stock ex_bread = 1" "findCartById ?d 30 = Some ?c"
    by (simp_all add: truthy_def findCartByCustomer_def findCartById_def ex_db_def ex_cart_def
        ex_line_def ex_products_def ex_bread_def)
  from commit_reverification [OF pre(1-7), of ex_env None None None 30 ex_pd ex_dd] pre(8)
  have "fst (postOrder ex_env ?d 20 (Some ''cash_on_delivery'') None None None) = ?d"
    and "createFromCart ex_env ?d 30 ex_pd ex_dd = (?d, Inl SomeItemsUnavailable)"
    by auto
  with payload show ?thesis by simp
qed


lemma new_order_amounts:
  "amounts (new_order ev c lines pd dd) =
     (cart_subtotal c, c_discount c, order_tax (cart_subtotal c),
      (case dd_fee dd of None \<Rightarrow> 0 | Some fee \<Rightarrow> fee),
      order_total (cart_subtotal c) (order_tax (cart_subtotal c))
        (case dd_fee dd of None \<Rightarrow> 0 | Some fee \<Rightarrow> fee) (c_discount c))"
  by (simp add: new_order_def amounts_def Let_def)

lemma order_items_error: "order_items d lines = Inl e \<Longrightarrow> e = TypeError"
  by (induction lines arbitrary: e) (auto split: option.splits sum.splits)

lemma order_document_fields:
  assumes "order_document ev d c pd dd = Inr doc"
  shows "o_orderNumber doc = []"
    and "amounts doc =
     (cart_subtotal c, c_discount c, order_tax (cart_subtotal c),
      (case dd_fee dd of None \<Rightarrow> 0 | Some fee \<Rightarrow> fee),
      order_total (cart_subtotal c) (order_tax (cart_subtotal c))
        (case dd_fee dd of None \<Rightarrow> 0 | Some fee \<Rightarrow> fee) (c_discount c))"
proof -
  from assms obtain lines where doc: "doc = new_order ev c lines pd dd"
    by (auto simp: order_document_def split: sum.splits)
  show "o_orderNumber doc = []"
    by (simp add: doc new_order_def Let_def)
  show "amounts doc =
     (cart_subtotal c, c_discount c, order_tax (cart_subtotal c),
      (case dd_fee dd of None \<Rightarrow> 0 | Some fee \<Rightarrow> fee),
      order_total (cart_subtotal c) (order_tax (cart_subtotal c))
        (case dd_fee dd of None \<Rightarrow> 0 | Some fee \<Rightarrow> fee) (c_discount c))"
    by (simp add: doc new_order_amounts)
qed

lemma order_document_error: "order_document ev d c pd dd = Inl e \<Longrightarrow> e = TypeError"
  by (auto simp: order_document_def dest: order_items_error split: sum.splits)

text \<open>
  \<open>Order.create\<close> refuses the document of the pipeline, so a run of \<open>createFromCart\<close>
  ends in one of five failures and never writes.
\<close>

lemma create_order_document:
  "order_document ev d c pd dd = Inr doc \<Longrightarrow> create_order ev d doc = (d, Inl ValidationError)"
  by (simp add: create_order_def order_document_fields)

lemma createFromCart_result:
  "createFromCart ev d cartId pd dd =
     (d, Inl (case findCartById d cartId of
                None \<Rightarrow> NotFound
              | Some c \<Rightarrow>
                  if c_items c = [] then EmptyCart
                  else if \<not> isValid (verifyAvailability d c) then SomeItemsUnavailable
                  else (case order_document ev d c pd dd of
                          Inl e \<Rightarrow> e
                        | Inr doc \<Rightarrow> ValidationError)))"
proof (cases "findCartById d cartId")
  case None
  then show ?thesis by (simp add: createFromCart_def)
next
  case (Some c)
  show ?thesis
  proof (cases "order_document ev d c pd dd")
    case (Inl e)
    with Some show ?thesis by (simp add: createFromCart_def)
  next
    case (Inr doc)
    with Some create_order_document [OF Inr] show ?thesis
      by (simp add: createFromCart_def)
  qed
qed

lemma postOrder_stores_nothing:
  "fst (postOrder ev d user paymentMethod deliveryAddress deliveryPhone deliveryInstructions) = d"
  by (simp add: postOrder_def createFromCart_result Let_def split: option.splits)

lemma find_map_replace:
  "find (\<lambda>x. o_id x = i) (map (\<lambda>other. if o_id other = o_id this then this else other) xs) =
     (if i = o_id this then map_option (\<lambda>_. this) (find (\<lambda>x. o_id x = i) xs)
      else find (\<lambda>x. o_id x = i) xs)"
  by (induction xs) auto

lemma findOrderById_save_order:
  "findOrderById (fst (save_order d this)) i =
     (if i = o_id this then map_option (\<lambda>_. this) (findOrderById d i) else findOrderById d i)"
  by (simp add: findOrderById_def save_order_def find_map_replace)

lemma findOrderById_id: "findOrderById d i = Some this \<Longrightarrow> o_id this = i"
  by (auto simp: findOrderById_def find_Some_iff)

lemma save_order_amounts:
  assumes "findOrderById d (o_id this) = Some this" and "o_id this' = o_id this"
    and "amounts this' = amounts this"
  shows "map_option amounts (findOrderById (fst (save_order d this')) i)
         = map_option amounts (findOrderById d i)"
  using assms by (simp add: findOrderById_save_order)

lemma set_status_kept:
  "o_id (set_status now this status note) = o_id this"
  "amounts (set_status now this status note) = amounts this"
  "o_items (set_status now this status note) = o_items this"
  by (simp_all add: set_status_def amounts_def Let_def split: option.splits)

lemma apply_op_amounts:
  "map_option amounts (findOrderById (fst (apply_op ev d orderId opn)) i)
   = map_option amounts (findOrderById d i)"
proof (cases "findOrderById d orderId")
  case None
  then show ?thesis by (simp add: apply_op_def)
next
  case (Some this)
  then have id: "o_id this = orderId" by (rule findOrderById_id)
  with Some have stored: "findOrderById d (o_id this) = Some this" by simp
  note kept = save_order_amounts [OF stored]
  show ?thesis
  proof (cases opn)
    case (UpdateStatus status remark)
    with Some show ?thesis
      by (simp add: apply_op_def updateStatus_def kept set_status_kept)
  next
    case (CancelOrder reason)
    with Some show ?thesis
      by (simp add: apply_op_def cancelOrder_def kept amounts_def)
  next
    case (UpdatePayment status transactionId)
    with Some show ?thesis
      by (simp add: apply_op_def updatePayment_def kept amounts_def Let_def split: option.splits)
  next
    case (PutOrderStatus user statusField)
    with Some show ?thesis
      by (simp add: apply_op_def putOrderStatus_def kept set_status_kept Let_def
          split: option.splits)
  qed
qed

lemma apply_ops_amounts:
  "map_option amounts (findOrderById (apply_ops d ops) i) = map_option amounts (findOrderById d i)"
proof (induction ops arbitrary: d)
  case Nil
  then show ?case by simp
next
  case (Cons call rest)
  obtain ev orderId opn where "call = (ev, orderId, opn)"
    by (cases call)
  then show ?case
    by (simp add: Cons.IH apply_op_amounts)
qed

lemma cart_subtotal_rounded: "fl (cart_subtotal c) = cart_subtotal c"
proof (cases "c_items c" rule: rev_cases)
  case Nil
  then show ?thesis by (simp add: cart_subtotal_def fl_def)
next
  case (snoc lines item)
  then show ?thesis by (simp add: cart_subtotal_def)
qed

text \<open>
  C1. A run of \<open>createFromCart\<close> that fails leaves the database as it was: no order
  record is created and no product's stock is changed. The failure is that of a step
  before the stock loop: the cart is missing or empty, the availability verification
  fails, a line cannot be snapshot, or \<open>Order.create\<close> refuses the document. The
  document has no \<open>orderNumber\<close>, so \<open>Order.create\<close> always refuses it before writing,
  and no run gets as far as a stock decrement.
\<close>

theorem createFromCart_abort:
  assumes "createFromCart ev d cartId pd dd = (d', Inl e)"
  shows "d' = d \<and> orders d' = orders d \<and> products d' = products d \<and>
         (e = NotFound \<or> e = EmptyCart \<or> e = SomeItemsUnavailable \<or> e = TypeError \<or>
          e = ValidationError)"
proof -
  define r where "r = (case findCartById d cartId of
                None \<Rightarrow> NotFound
              | Some c \<Rightarrow>
                  if c_items c = [] then EmptyCart
                  else if \<not> isValid (verifyAvailability d c) then SomeItemsUnavailable
                  else (case order_document ev d c pd dd of
                          Inl e \<Rightarrow> e
                        | Inr doc \<Rightarrow> ValidationError))"
  have "createFromCart ev d cartId pd dd = (d, Inl r)"
    unfolding r_def by (rule createFromCart_result)
  with assms have same: "d' = d" and "e = r"
    by simp_all
  then have e: "e = (case findCartById d cartId of
                None \<Rightarrow> NotFound
              | Some c \<Rightarrow>
                  if c_items c = [] then EmptyCart
                  else if \<not> isValid (verifyAvailability d c) then SomeItemsUnavailable
                  else (case order_document ev d c pd dd of
                          Inl e \<Rightarrow> e
                        | Inr doc \<Rightarrow> ValidationError))"
    by (simp add: r_def)
  have "e = NotFound \<or> e = EmptyCart \<or> e = SomeItemsUnavailable \<or> e = TypeError \<or>
        e = ValidationError"
  proof (cases "findCartById d cartId")
    case None
    with e show ?thesis by simp
  next
    case (Some c)
    show ?thesis
    proof (cases "order_document ev d c pd dd")
      case (Inl e')
      with order_document_error [OF Inl] Some e show ?thesis
        by (simp split: if_splits)
    next
      case (Inr doc)
      with Some e show ?thesis
        by (simp split: if_splits)
    qed
  qed
  with same show ?thesis by simp
qed

theorem createFromCart_abort_witness:
  "createFromCart ex_env (ex_db [ex_cart [] 0] []) 30 ex_pd ex_dd
     = (ex_db [ex_cart [] 0] [], Inl EmptyCart) \<and>
   createFromCart ex_env (ex_db [ex_cart [ex_line 2 3 2 ''Bread''] 0] []) 30 ex_pd ex_dd
     = (ex_db [ex_cart [ex_line 2 3 2 ''Bread''] 0] [], Inl SomeItemsUnavailable) \<and>
   createFromCart ex_env ex_twice 30 ex_pd ex_dd = (ex_twice, Inl ValidationError) \<and>
   map_option p_stock (products (fst (createFromCart ex_env ex_twice 30 ex_pd ex_dd)) 1) = Some 10"
proof -
  let ?X = "createFromCart ex_env (ex_db [ex_cart [] 0] []) 30 ex_pd ex_dd"
  let ?U = "createFromCart ex_env (ex_db [ex_cart [ex_line 2 3 2 ''Bread''] 0] []) 30 ex_pd ex_dd"
  let ?Y = "createFromCart ex_env ex_twice 30 ex_pd ex_dd"
  have "snd ?X = Inl EmptyCart" "snd ?U = Inl SomeItemsUnavailable" "snd ?Y = Inl ValidationError"
    by code_simp+
  then have failed: "?X = (fst ?X, Inl EmptyCart)" "?U = (fst ?U, Inl SomeItemsUnavailable)"
    "?Y = (fst ?Y, Inl ValidationError)"
    by (metis prod.collapse)+
  from createFromCart_abort [OF failed(1)] createFromCart_abort [OF failed(2)]
    createFromCart_abort [OF failed(3)]
  have same: "fst ?X = ex_db [ex_cart [] 0] []"
    "fst ?U = ex_db [ex_cart [ex_line 2 3 2 ''Bread''] 0] []" "fst ?Y = ex_twice"
    by simp_all
  have "map_option p_stock (products ex_twice 1) = Some 10"
    by (simp add: ex_twice_def ex_db_def ex_products_def ex_apples_def)
  with failed same show ?thesis by simp
qed


text \<open>
  C5. The total of the order that \<open>createFromCart\<close> builds is, on the order's own fields,
  \<open>subtotal + tax + deliveryFee - discount\<close> computed in this order on doubles. With the
  discount 0 (the only discount the code writes to a cart) this is the same double as
  \<open>subtotal - discount + tax + deliveryFee\<close>; with any amounts that are not negative the
  two differ by no more than the sum of the four amounts times \<open>2 ^ -48\<close>, far below a
  cent. No later operation on an order (\<open>updateStatus\<close>, \<open>cancelOrder\<close>,
  \<open>updatePayment\<close>, the status route), in any sequence and on any orders, changes the
  subtotal, discount, tax, delivery fee or total of a stored order.
\<close>

theorem order_amounts_fixed:
  "(order_document ev d c pd dd = Inr doc \<longrightarrow>
      o_total doc =
        num_sub (num_add (num_add (o_subtotal doc) (o_tax doc)) (o_deliveryFee doc)) (o_discount doc) \<and>
      (o_discount doc = 0 \<longrightarrow> o_total doc = spec_total doc) \<and>
      (0 \<le> o_subtotal doc \<and> 0 \<le> o_tax doc \<and> 0 \<le> o_deliveryFee doc \<and> 0 \<le> o_discount doc \<longrightarrow>
         \<bar>o_total doc - spec_total doc\<bar>
           \<le> (o_subtotal doc + o_tax doc + o_deliveryFee doc + o_discount doc) / 2 ^ 48)) \<and>
   map_option amounts (findOrderById (apply_ops d ops) orderId)
     = map_option amounts (findOrderById d orderId)"
proof -
  have "o_total doc =
        num_sub (num_add (num_add (o_subtotal doc) (o_tax doc)) (o_deliveryFee doc)) (o_discount doc) \<and>
      (o_discount doc = 0 \<longrightarrow> o_total doc = spec_total doc) \<and>
      (0 \<le> o_subtotal doc \<and> 0 \<le> o_tax doc \<and> 0 \<le> o_deliveryFee doc \<and> 0 \<le> o_discount doc \<longrightarrow>
         \<bar>o_total doc - spec_total doc\<bar>
           \<le> (o_subtotal doc + o_tax doc + o_deliveryFee doc + o_discount doc) / 2 ^ 48)"
    if built: "order_document ev d c pd dd = Inr doc"
  proof -
    from order_document_fields(2) [OF built]
    have total: "o_total doc =
        num_sub (num_add (num_add (o_subtotal doc) (o_tax doc)) (o_deliveryFee doc)) (o_discount doc)"
      and rounded: "fl (o_subtotal doc) = o_subtotal doc"
      by (simp_all add: amounts_def order_total_def cart_subtotal_rounded)
    have exact: "o_total doc = spec_total doc" if "o_discount doc = 0"
    proof -
      from that total
      have "o_total doc = fl (num_add (num_add (o_subtotal doc) (o_tax doc)) (o_deliveryFee doc))"
        by (simp add: num_sub_def)
      also have "\<dots> = num_add (num_add (o_subtotal doc) (o_tax doc)) (o_deliveryFee doc)"
        by simp
      also have "\<dots> = spec_total doc"
        using that rounded by (simp add: spec_total_def num_sub_def)
      finally show ?thesis .
    qed
    have "\<bar>o_total doc - spec_total doc\<bar>
           \<le> (o_subtotal doc + o_tax doc + o_deliveryFee doc + o_discount doc) / 2 ^ 48"
      if "0 \<le> o_subtotal doc" "0 \<le> o_tax doc" "0 \<le> o_deliveryFee doc" "0 \<le> o_discount doc"
      using totals_close [OF that] by (simp add: total spec_total_def)
    with total exact show ?thesis by blast
  qed
  with apply_ops_amounts [of d ops orderId] show ?thesis
    by blast
qed

theorem order_amounts_fixed_witness:
  "isl (order_document ex_env ex_plain (ex_cart [ex_line 1 1 (fl (299 / 100)) ''Apples''] 0)
          ex_pd ex_dd) = False \<and>
   o_total (projr (order_document ex_env ex_plain
       (ex_cart [ex_line 1 1 (fl (299 / 100)) ''Apples''] 0) ex_pd ex_dd))
     = spec_total (projr (order_document ex_env ex_plain
       (ex_cart [ex_line 1 1 (fl (299 / 100)) ''Apples''] 0) ex_pd ex_dd)) \<and>
   \<bar>o_total (projr (order_document ex_env ex_half_off
        (ex_cart [ex_line 1 1 (fl (299 / 100)) ''Apples''] (1 / 2)) ex_pd ex_dd))
    - spec_total (projr (order_document ex_env ex_half_off
        (ex_cart [ex_line 1 1 (fl (299 / 100)) ''Apples''] (1 / 2)) ex_pd ex_dd))\<bar>
     \<le> 9 / 2 ^ 48 \<and>
   map_option amounts (findOrderById
       (apply_ops (ex_db [] [ex_order ''NM-261101-0001'' ''pending''])
          [(ex_env, 40, PutOrderStatus 7 (Some ''confirmed'')),
           (ex_env, 40, UpdatePayment ''completed'' None),
           (ex_env, 40, UpdateStatus ''delivered'' []),
           (ex_env, 40, CancelOrder ''late'')])
       40)
     = Some (6, 0, 1, 5, 12)"
proof -
  let ?P = "order_document ex_env ex_plain (ex_cart [ex_line 1 1 (fl (299 / 100)) ''Apples''] 0)
      ex_pd ex_dd"
  let ?H = "order_document ex_env ex_half_off
      (ex_cart [ex_line 1 1 (fl (299 / 100)) ''Apples''] (1 / 2)) ex_pd ex_dd"
  let ?ops = "[(ex_env, 40, PutOrderStatus 7 (Some ''confirmed'')),
           (ex_env, 40, UpdatePayment ''completed'' None),
           (ex_env, 40, UpdateStatus ''delivered'' []),
           (ex_env, 40, CancelOrder ''late'')]"
  have "(let P = ?P in (isl P, o_discount (projr P))) = (False, 0)"
    by code_simp
  then have plain: "isl ?P = False" "o_discount (projr ?P) = 0"
    by (simp_all add: Let_def)
  then have "?P = Inr (projr ?P)"
    by simp
  with order_amounts_fixed [of ex_env ex_plain _ ex_pd ex_dd "projr ?P"] plain(2)
  have same: "o_total (projr ?P) = spec_total (projr ?P)"
    by blast
  have "(let H = ?H in (isl H, 0 \<le> o_subtotal (projr H), 0 \<le> o_tax (projr H),
           0 \<le> o_deliveryFee (projr H), 0 \<le> o_discount (projr H),
           o_subtotal (projr H) + o_tax (projr H) + o_deliveryFee (projr H) + o_discount (projr H) \<le> 9))
        = (False, True, True, True, True, True)"
    by code_simp
  then have half: "isl ?H = False" "0 \<le> o_subtotal (projr ?H)" "0 \<le> o_tax (projr ?H)"
    "0 \<le> o_deliveryFee (projr ?H)" "0 \<le> o_discount (projr ?H)"
    and sum: "o_subtotal (projr ?H) + o_tax (projr ?H) + o_deliveryFee (projr ?H)
        + o_discount (projr ?H) \<le> 9"
    by (simp_all add: Let_def)
  from half(1) have "?H = Inr (projr ?H)"
    by simp
  with order_amounts_fixed [of ex_env ex_half_off _ ex_pd ex_dd "projr ?H"] half(2-5)
  have "\<bar>o_total (projr ?H) - spec_total (projr ?H)\<bar>
      \<le> (o_subtotal (projr ?H) + o_tax (projr ?H) + o_deliveryFee (projr ?H)
          + o_discount (projr ?H)) / 2 ^ 48"
    by blast
  also have "\<dots> \<le> 9 / 2 ^ 48"
    using sum by (simp add: divide_right_mono)
  finally have close: "\<bar>o_total (projr ?H) - spec_total (projr ?H)\<bar> \<le> 9 / 2 ^ 48" .
  have stored: "map_option amounts (findOrderById (ex_db [] [ex_order ''NM-261101-0001'' ''pending'']) 40)
      = Some (6, 0, 1, 5, 12)"
    by (simp add: findOrderById_def ex_db_def ex_order_def amounts_def)
  from order_amounts_fixed [of ex_env "ex_db [] [ex_order ''NM-261101-0001'' ''pending'']"
      _ ex_pd ex_dd _ ?ops 40] stored
  have "map_option amounts (findOrderById
       (apply_ops (ex_db [] [ex_order ''NM-261101-0001'' ''pending'']) ?ops) 40)
     = Some (6, 0, 1, 5, 12)"
    by simp
  with plain same close show ?thesis by simp
qed




end
